theory Spec2Isabelle
  imports Complex_Main
begin

section \<open>Decision variables, linear expressions, constraints, problems\<close>

text \<open>
  The script \<open>main.py\<close> builds six optimisation problems with the modelling library and
  hands each to the library's solver. The objects it builds are embedded here as data:
  a decision variable is a record, a linear expression is an ordered list of
  (variable, coefficient) entries with a constant, a constraint is an expression
  compared with zero, and a problem is an objective with a list of constraints.
  Coefficients are real numbers (the rounding of machine floats is not modelled).
\<close>

text \<open>The names of the decision variables created by the script, one constructor per family.\<close>

datatype var =
    V_x nat
  | V_clientes_regiao string
  | V_cap_emergencia
  | V_cap_cirurgia
  | V_cap_consulta
  | V_orcamento string
  | V_centro_aberto nat
  | V_atende nat nat
  | V_dummy

datatype kind = Continuous | Integer | Binary

record LpVariable =
  vname :: var
  lowBound :: "real option"
  upBound :: "real option"
  cat :: kind

record LpAffineExpression =
  coeffs :: "(LpVariable \<times> real) list"
  const_part :: real

datatype sense = LE | GE | EQ

record LpConstraint =
  expr :: LpAffineExpression
  csense :: sense

datatype direction = LpMinimize | LpMaximize

record LpProblem =
  pname :: string
  dir :: direction
  objective :: LpAffineExpression
  constraints :: "LpConstraint list"

subsection \<open>Expression algebra\<close>

text \<open>
  Modelled from the spec: the Expression Algebra (section 4.2), whose code is the
  modelling library's and is not in the repository: a sum combines the coefficients of
  like variables and adds the constants, scaling multiplies every coefficient and the
  constant. Adding a term to an expression: the coefficient is added to the entry of
  the variable when there is one, and a new entry is appended otherwise (insertion
  order is kept).
\<close>

fun addterm :: "(LpVariable \<times> real) list \<Rightarrow> LpVariable \<Rightarrow> real \<Rightarrow> (LpVariable \<times> real) list" where
  "addterm [] v c = [(v, c)]"
| "addterm ((w, d) # ts) v c = (if w = v then (w, d + c) # ts else (w, d) # addterm ts v c)"

definition addterms :: "(LpVariable \<times> real) list \<Rightarrow> (LpVariable \<times> real) list \<Rightarrow> (LpVariable \<times> real) list" where
  "addterms ts us = foldl (\<lambda>acc (v, c). addterm acc v c) ts us"

definition lpEmpty :: LpAffineExpression where
  "lpEmpty = \<lparr>coeffs = [], const_part = 0\<rparr>"

definition lpConst :: "real \<Rightarrow> LpAffineExpression" where
  "lpConst c = \<lparr>coeffs = [], const_part = c\<rparr>"

definition lpVar :: "LpVariable \<Rightarrow> LpAffineExpression" where
  "lpVar v = \<lparr>coeffs = [(v, 1)], const_part = 0\<rparr>"

definition addInPlace :: "LpAffineExpression \<Rightarrow> LpAffineExpression \<Rightarrow> LpAffineExpression" where
  "addInPlace e other =
     \<lparr>coeffs = addterms (coeffs e) (coeffs other), const_part = const_part e + const_part other\<rparr>"

definition lpSum :: "LpAffineExpression list \<Rightarrow> LpAffineExpression" where
  "lpSum es = foldl addInPlace lpEmpty es"

definition scale :: "real \<Rightarrow> LpAffineExpression \<Rightarrow> LpAffineExpression" where
  "scale k e = \<lparr>coeffs = map (\<lambda>(v, c). (v, k * c)) (coeffs e), const_part = k * const_part e\<rparr>"

definition divide_expr :: "LpAffineExpression \<Rightarrow> real \<Rightarrow> LpAffineExpression" where
  "divide_expr e k = scale (1 / k) e"

definition sub_expr :: "LpAffineExpression \<Rightarrow> LpAffineExpression \<Rightarrow> LpAffineExpression" where
  "sub_expr e other = addInPlace e (scale (- 1) other)"

text \<open>A comparison of two expressions is the constraint \<open>lhs - rhs \<bowtie> 0\<close>.\<close>

definition lp_le :: "LpAffineExpression \<Rightarrow> LpAffineExpression \<Rightarrow> LpConstraint" where
  "lp_le l r = \<lparr>expr = sub_expr l r, csense = LE\<rparr>"

definition lp_ge :: "LpAffineExpression \<Rightarrow> LpAffineExpression \<Rightarrow> LpConstraint" where
  "lp_ge l r = \<lparr>expr = sub_expr l r, csense = GE\<rparr>"

definition lp_eq :: "LpAffineExpression \<Rightarrow> LpAffineExpression \<Rightarrow> LpConstraint" where
  "lp_eq l r = \<lparr>expr = sub_expr l r, csense = EQ\<rparr>"

subsection \<open>Problems: \<open>prob += ...\<close>\<close>

definition new_problem :: "string \<Rightarrow> direction \<Rightarrow> LpProblem" where
  "new_problem nm d = \<lparr>pname = nm, dir = d, objective = lpEmpty, constraints = []\<rparr>"

definition set_objective :: "LpAffineExpression \<Rightarrow> LpProblem \<Rightarrow> LpProblem" where
  "set_objective e p = p\<lparr>objective := e\<rparr>"

definition add_constraint :: "LpConstraint \<Rightarrow> LpProblem \<Rightarrow> LpProblem" where
  "add_constraint c p = p\<lparr>constraints := constraints p @ [c]\<rparr>"

definition add_constraints :: "LpConstraint list \<Rightarrow> LpProblem \<Rightarrow> LpProblem" where
  "add_constraints cs p = foldl (\<lambda>q c. add_constraint c q) p cs"

subsection \<open>Meaning of a problem\<close>

text \<open>
  An assignment gives every variable name a real value. The value of an expression,
  the truth of a constraint, the domain of a variable (its bounds, and whole numbers
  for \<open>Integer\<close>, zero or one for \<open>Binary\<close>), feasibility and optimality follow.
\<close>

definition value_at :: "(var \<Rightarrow> real) \<Rightarrow> LpAffineExpression \<Rightarrow> real" where
  "value_at a e = const_part e + sum_list (map (\<lambda>(v, c). c * a (vname v)) (coeffs e))"

definition holds :: "(var \<Rightarrow> real) \<Rightarrow> LpConstraint \<Rightarrow> bool" where
  "holds a c =
     (case csense c of
        LE \<Rightarrow> value_at a (expr c) \<le> 0
      | GE \<Rightarrow> value_at a (expr c) \<ge> 0
      | EQ \<Rightarrow> value_at a (expr c) = 0)"

definition is_whole :: "real \<Rightarrow> bool" where
  "is_whole r = (of_int (floor r) = r)"

definition in_domain :: "(var \<Rightarrow> real) \<Rightarrow> LpVariable \<Rightarrow> bool" where
  "in_domain a v =
     ((case lowBound v of None \<Rightarrow> True | Some l \<Rightarrow> l \<le> a (vname v)) \<and>
      (case upBound v of None \<Rightarrow> True | Some u \<Rightarrow> a (vname v) \<le> u) \<and>
      (case cat v of
         Continuous \<Rightarrow> True
       | Integer \<Rightarrow> is_whole (a (vname v))
       | Binary \<Rightarrow> a (vname v) = 0 \<or> a (vname v) = 1))"

definition variables :: "LpProblem \<Rightarrow> LpVariable list" where
  "variables p =
     map fst (coeffs (objective p)) @ concat (map (\<lambda>c. map fst (coeffs (expr c))) (constraints p))"

definition feasible :: "LpProblem \<Rightarrow> (var \<Rightarrow> real) \<Rightarrow> bool" where
  "feasible p a = (list_all (in_domain a) (variables p) \<and> list_all (holds a) (constraints p))"

definition no_worse :: "LpProblem \<Rightarrow> (var \<Rightarrow> real) \<Rightarrow> (var \<Rightarrow> real) \<Rightarrow> bool" where
  "no_worse p a b =
     (case dir p of
        LpMaximize \<Rightarrow> value_at b (objective p) \<le> value_at a (objective p)
      | LpMinimize \<Rightarrow> value_at a (objective p) \<le> value_at b (objective p))"

definition optimal :: "LpProblem \<Rightarrow> (var \<Rightarrow> real) \<Rightarrow> bool" where
  "optimal p a = (feasible p a \<and> (\<forall>b. feasible p b \<longrightarrow> no_worse p a b))"

subsection \<open>Creating variables\<close>

text \<open>
  \<open>pulp.LpVariable(name, lowBound, upBound, cat)\<close> as the library creates a variable:
  the bounds are kept as passed (\<open>None\<close> for a bound that is not passed), except that a
  binary variable always gets the bounds 0 and 1, whatever was passed. The creation has
  no failing branch. (The library then records a binary variable as an integer variable
  with these bounds; here it keeps the category \<open>Binary\<close>, which has the same values.)
\<close>

definition new_variable :: "var \<Rightarrow> real option \<Rightarrow> real option \<Rightarrow> kind \<Rightarrow> LpVariable" where
  "new_variable nm lo up k =
     (if k = Binary
      then \<lparr>vname = nm, lowBound = Some 0, upBound = Some 1, cat = Binary\<rparr>
      else \<lparr>vname = nm, lowBound = lo, upBound = up, cat = k\<rparr>)"

section \<open>Consulta 1: client selection\<close>

text \<open>
  Lines 22 to 31 of the script: one binary variable per record, the revenue of the
  selected records is maximised, and the total cost of the selected records is at most
  15000 times their number. The columns \<open>receita\<close> and \<open>custo\<close> are read at the row
  labels \<open>clientes\<close>, which are the positions of the rows.
\<close>

definition x :: "nat \<Rightarrow> LpVariable" where
  "x i = \<lparr>vname = V_x i, lowBound = Some 0, upBound = Some 1, cat = Binary\<rparr>"

definition prob :: "real list \<Rightarrow> real list \<Rightarrow> LpProblem" where
  "prob receita custo =
     (let clientes = [0..<length custo] in
      add_constraint
        (lp_le (lpSum (map (\<lambda>i. scale (custo ! i) (lpVar (x i))) clientes))
               (scale 15000 (lpSum (map (\<lambda>i. lpVar (x i)) clientes))))
        (set_objective (lpSum (map (\<lambda>i. scale (receita ! i) (lpVar (x i))) clientes))
           (new_problem ''SelecaoSeguros'' LpMaximize)))"


text \<open>
  Two expressions are compared by their normalised form: the mapping from variables to
  coefficients, and the constant. \<open>total ts u\<close> adds up the coefficients that the
  entries \<open>ts\<close> give to the variable \<open>u\<close>.
\<close>

definition normalized :: "LpAffineExpression \<Rightarrow> (LpVariable \<rightharpoonup> real) \<times> real" where
  "normalized e = (map_of (coeffs e), const_part e)"

definition total :: "(LpVariable \<times> real) list \<Rightarrow> LpVariable \<Rightarrow> real" where
  "total ts u = sum_list (map snd (filter (\<lambda>t. fst t = u) ts))"

text \<open>The variables that occur in an expression.\<close>

definition vars_of :: "LpAffineExpression \<Rightarrow> LpVariable set" where
  "vars_of e = fst ` set (coeffs e)"

text \<open>
  The two selections of the three-record example with costs 10000, 16000 and 20000 that
  keep the mean cost of the selected records at or below 15000 and select two records.
\<close>

definition sel_10000_16000 :: "var \<Rightarrow> real" where
  "sel_10000_16000 v = (if v = V_x 0 \<or> v = V_x 1 then 1 else 0)"

definition sel_10000_20000 :: "var \<Rightarrow> real" where
  "sel_10000_20000 v = (if v = V_x 0 \<or> v = V_x 2 then 1 else 0)"

section \<open>The solver's result and what the script reads from it\<close>

text \<open>
  The solver is outside the repository. Its result is a status and, for each variable,
  a value or none. \<open>expr_value\<close> is what the script obtains from \<open>pulp.value\<close> on an
  expression: none as soon as one of its variables has no value.
\<close>

datatype LpStatus = Optimal | Infeasible | Unbounded | NotSolved

record Result =
  status :: LpStatus
  varValue :: "var \<Rightarrow> real option"

fun terms_value :: "Result \<Rightarrow> (LpVariable \<times> real) list \<Rightarrow> real \<Rightarrow> real option" where
  "terms_value res [] s = Some s"
| "terms_value res ((v, c) # ts) s =
     (case varValue res (vname v) of
        None \<Rightarrow> None
      | Some r \<Rightarrow> terms_value res ts (s + r * c))"

definition expr_value :: "Result \<Rightarrow> LpAffineExpression \<Rightarrow> real option" where
  "expr_value res e = terms_value res (coeffs e) (const_part e)"

text \<open>
  Modelled from the spec: the Solver Adapter (sections 4.5 and 6), an external
  collaborator that is not part of the repository. For a solve that runs to completion
  (the script passes no time budget) the contract is: feasibility detection, an optimal
  assignment of every variable when the status is \<open>Optimal\<close>, and \<open>Unbounded\<close> only
  for a feasible problem without optimum.
\<close>

definition solve_spec :: "LpProblem \<Rightarrow> Result \<Rightarrow> bool" where
  "solve_spec p r =
     ((status r = Optimal \<longrightarrow>
         (\<exists>a. optimal p a \<and> (\<forall>v \<in> set (variables p). varValue r (vname v) = Some (a (vname v))))) \<and>
      (status r = Infeasible \<longleftrightarrow> (\<forall>a. \<not> feasible p a)) \<and>
      (status r = Unbounded \<longrightarrow> (\<exists>a. feasible p a) \<and> (\<forall>a. \<not> optimal p a)) \<and>
      status r \<noteq> NotSolved)"

text \<open>A result without values and with status \<open>Infeasible\<close>, and the all-zero assignment.\<close>

definition res_infeasible :: Result where
  "res_infeasible = \<lparr>status = Infeasible, varValue = (\<lambda>_. None)\<rparr>"

definition tudo_zero :: "var \<Rightarrow> real" where
  "tudo_zero v = 0"

text \<open>
  A result with status \<open>Infeasible\<close> in which every variable has the value 12, a
  solver that leaves every variable without a value, and a solver that answers every
  problem with status \<open>Optimal\<close> and the value 1 for every variable.
\<close>

definition res_lixo :: Result where
  "res_lixo = \<lparr>status = Infeasible, varValue = (\<lambda>_. Some 12)\<rparr>"

definition solver_nada :: "LpProblem \<Rightarrow> Result" where
  "solver_nada p = \<lparr>status = NotSolved, varValue = (\<lambda>_. None)\<rparr>"

definition solver_tudo :: "LpProblem \<Rightarrow> Result" where
  "solver_tudo p = \<lparr>status = Optimal, varValue = (\<lambda>_. Some 1)\<rparr>"

section \<open>The record store\<close>

text \<open>
  A row of the insurance table, and the table as \<open>read_csv\<close> returns it: the names of
  the columns the file has, and its rows. Reading a column that the file does not have
  raises \<open>KeyError\<close>; the field of a row under an absent column is never read.
  A cell of \<open>charges\<close> is a finite number or, as \<open>None\<close>, a float that is not finite
  (an empty cell is read as NaN).
\<close>

record row =
  age :: int
  sex :: string
  bmi :: real
  children :: int
  smoker :: string
  region :: string
  charges :: "real option"

record table =
  columns :: "string list"
  records :: "row list"

datatype py_error = KeyError string | TypeError | PulpError

definition getcol :: "table \<Rightarrow> string \<Rightarrow> (row \<Rightarrow> 'a) \<Rightarrow> py_error + 'a list" where
  "getcol df nm field =
     (if nm \<in> set (columns df) then Inr (map field (records df)) else Inl (KeyError nm))"

definition mean :: "real list \<Rightarrow> real" where
  "mean vs = sum_list vs / real (length vs)"

text \<open>Python's \<open>int\<close> of a float rounds towards zero.\<close>

definition py_int :: "real \<Rightarrow> int" where
  "py_int r = (if 0 \<le> r then floor r else ceiling r)"

section \<open>What the script prints\<close>

datatype line =
    Titulo nat
  | Separador
  | ClientesEscolhidos nat
  | ReceitaTotal real
  | CustoMedio real
  | ClientesRegiao string int
  | CustoTotalEstimado real

text \<open>Lines 37 to 43: the report of consulta 1.\<close>

definition selecionados :: "nat list \<Rightarrow> Result \<Rightarrow> nat list" where
  "selecionados clientes res = filter (\<lambda>i. varValue res (V_x i) = Some 1) clientes"

definition report1 :: "real list \<Rightarrow> LpProblem \<Rightarrow> Result \<Rightarrow> line list \<times> py_error option" where
  "report1 custo p res =
     (let sel = selecionados [0..<length custo] res;
          out = [Titulo 1, ClientesEscolhidos (length sel)]
      in case expr_value res (objective p) of
           None \<Rightarrow> (out, Some TypeError)
         | Some v \<Rightarrow>
             (out @ [ReceitaTotal v] @
                (if sel \<noteq> [] then [CustoMedio (mean (map (\<lambda>i. custo ! i) sel))] else []),
              None))"

section \<open>Consulta 2: regional portfolio\<close>

text \<open>
  Lines 52 to 76. The region of a row is derived from its body-mass index; \<open>unique\<close>
  keeps the first occurrence of every value, in order of appearance.
\<close>

definition regiao :: "real \<Rightarrow> string" where
  "regiao b = (if b < 25 then ''Norte'' else if b < 30 then ''Sul'' else ''Centro'')"

primrec unique :: "'a list \<Rightarrow> 'a list" where
  "unique [] = []"
| "unique (v # vs) = v # filter (\<lambda>u. u \<noteq> v) (unique vs)"

definition y :: "string \<Rightarrow> LpVariable" where
  "y r = \<lparr>vname = V_clientes_regiao r, lowBound = Some 0, upBound = None, cat = Integer\<rparr>"

definition custos_por_regiao :: "string list \<Rightarrow> real list \<Rightarrow> string \<Rightarrow> real" where
  "custos_por_regiao regiao_col custo r =
     mean (map snd (filter (\<lambda>(g, c). g = r) (zip regiao_col custo)))"

definition total_clientes :: "string list \<Rightarrow> LpAffineExpression" where
  "total_clientes regioes = lpSum (map (\<lambda>r. lpVar (y r)) regioes)"

definition prob2 :: "string list \<Rightarrow> real list \<Rightarrow> LpProblem" where
  "prob2 regiao_col custo =
     (let regioes = unique regiao_col in
      add_constraints (map (\<lambda>r. lp_ge (lpVar (y r)) (lpConst 10)) regioes)
        (add_constraints
           (map (\<lambda>r. lp_le (lpVar (y r)) (scale (3 / 10) (total_clientes regioes))) regioes)
           (add_constraint (lp_ge (lpSum (map (\<lambda>r. lpVar (y r)) regioes)) (lpConst 50))
              (set_objective
                 (lpSum (map (\<lambda>r. scale (custos_por_regiao regiao_col custo r) (lpVar (y r)))
                           regioes))
                 (new_problem ''PortfolioRegiao'' LpMinimize)))))"

text \<open>Lines 80 to 83: the report of consulta 2.\<close>

fun print_regioes :: "Result \<Rightarrow> string list \<Rightarrow> line list \<times> py_error option" where
  "print_regioes res [] = ([], None)"
| "print_regioes res (r # rs) =
     (case varValue res (V_clientes_regiao r) of
        None \<Rightarrow> ([], Some TypeError)
      | Some v \<Rightarrow>
          (case print_regioes res rs of (ls, e) \<Rightarrow> (ClientesRegiao r (py_int v) # ls, e)))"

definition report2 :: "string list \<Rightarrow> LpProblem \<Rightarrow> Result \<Rightarrow> line list \<times> py_error option" where
  "report2 regioes p res =
     (case print_regioes res regioes of
        (ls, Some e) \<Rightarrow> (Titulo 2 # ls, Some e)
      | (ls, None) \<Rightarrow>
          (case expr_value res (objective p) of
             None \<Rightarrow> (Titulo 2 # ls, Some TypeError)
           | Some v \<Rightarrow> (Titulo 2 # ls @ [CustoTotalEstimado v], None)))"

definition prints_number :: "line \<Rightarrow> bool" where
  "prints_number l =
     (case l of
        ReceitaTotal _ \<Rightarrow> True
      | CustoMedio _ \<Rightarrow> True
      | ClientesRegiao _ _ \<Rightarrow> True
      | CustoTotalEstimado _ \<Rightarrow> True
      | ClientesEscolhidos _ \<Rightarrow> True
      | _ \<Rightarrow> False)"

section \<open>The script's first two sections in sequence\<close>

text \<open>
  Lines 12 to 85, with the solver as a parameter: the table is read, \<open>charges\<close> is
  copied to \<open>custo\<close> (line 19), consulta 1 is built, solved and reported, \<open>bmi\<close> is read
  (line 52), consulta 2 is built, solved and reported. The result is what was printed
  and the exception that ended the run, if one did.
\<close>

definition dummyVar :: LpVariable where
  "dummyVar = \<lparr>vname = V_dummy, lowBound = Some 0, upBound = Some 0, cat = Continuous\<rparr>"

text \<open>
  \<open>prob.solve()\<close>, with the solver as a parameter. The library gives an objective that
  has no variable a dummy variable for the solve and subtracts it again afterwards, so
  that it stays in the objective with coefficient 0; the script reads the objective of
  the problem as the solve left it.
\<close>

definition solve :: "(LpProblem \<Rightarrow> Result) \<Rightarrow> LpProblem \<Rightarrow> LpProblem \<times> Result" where
  "solve solver p =
     (if coeffs (objective p) = []
      then (let q = p\<lparr>objective := addInPlace (objective p) (lpVar dummyVar)\<rparr>
            in (q\<lparr>objective := sub_expr (objective q) (lpVar dummyVar)\<rparr>, solver q))
      else (p, solver p))"

text \<open>
  Building the cost constraint of line 31 multiplies each cost by a variable, which the
  library refuses with \<open>PulpError\<close> when the cost is not finite.
\<close>

definition consulta1 :: "(LpProblem \<Rightarrow> Result) \<Rightarrow> table \<Rightarrow> line list \<times> (py_error + real list)" where
  "consulta1 solver df =
     (case getcol df ''charges'' charges of
        Inl e \<Rightarrow> ([], Inl e)
      | Inr cells \<Rightarrow>
          if list_ex (\<lambda>c. c = None) cells then ([], Inl PulpError)
          else
            (let custo = map the cells;
                 receita = map (\<lambda>_. 5000) (records df)
             in case solve solver (prob receita custo) of
                  (p, res) \<Rightarrow>
                    (case report1 custo p res of
                       (out, Some e) \<Rightarrow> (out, Inl e)
                     | (out, None) \<Rightarrow> (out @ [Separador], Inr custo))))"

definition consulta2 :: "(LpProblem \<Rightarrow> Result) \<Rightarrow> table \<Rightarrow> real list \<Rightarrow> line list \<times> (py_error + unit)" where
  "consulta2 solver df custo =
     (case getcol df ''bmi'' bmi of
        Inl e \<Rightarrow> ([], Inl e)
      | Inr bmi_col \<Rightarrow>
          (let regiao_col = map regiao bmi_col
           in case solve solver (prob2 regiao_col custo) of
                (p, res) \<Rightarrow>
                  (case report2 (unique regiao_col) p res of
                     (out, Some e) \<Rightarrow> (out, Inl e)
                   | (out, None) \<Rightarrow> (out @ [Separador], Inr ()))))"

definition consultas_1_2 :: "(LpProblem \<Rightarrow> Result) \<Rightarrow> table \<Rightarrow> line list \<times> py_error option" where
  "consultas_1_2 solver df =
     (case consulta1 solver df of
        (out1, Inl e) \<Rightarrow> (out1, Some e)
      | (out1, Inr custo) \<Rightarrow>
          (case consulta2 solver df custo of
             (out2, Inl e) \<Rightarrow> (out1 @ out2, Some e)
           | (out2, Inr _) \<Rightarrow> (out1 @ out2, None)))"

section \<open>Consulta 3: hospital capacity\<close>

text \<open>Lines 92 to 122: demands derived from the rows, and the capacity problem.\<close>

definition demanda_emergencia :: "row \<Rightarrow> int" where
  "demanda_emergencia r = (if age r > 50 \<or> smoker r = ''yes'' then 1 else 0)"

definition demanda_cirurgia :: "row \<Rightarrow> int" where
  "demanda_cirurgia r = (if bmi r > 35 \<or> age r > 60 then 1 else 0)"

definition demanda_consulta :: "row \<Rightarrow> int" where
  "demanda_consulta r = 1"

definition cap_emergencia :: LpVariable where
  "cap_emergencia = \<lparr>vname = V_cap_emergencia, lowBound = Some 0, upBound = None, cat = Integer\<rparr>"

definition cap_cirurgia :: LpVariable where
  "cap_cirurgia = \<lparr>vname = V_cap_cirurgia, lowBound = Some 0, upBound = None, cat = Integer\<rparr>"

definition cap_consulta :: LpVariable where
  "cap_consulta = \<lparr>vname = V_cap_consulta, lowBound = Some 0, upBound = None, cat = Integer\<rparr>"

definition custo_emergencia :: real where "custo_emergencia = 10000"
definition custo_cirurgia :: real where "custo_cirurgia = 15000"
definition custo_consulta :: real where "custo_consulta = 2000"

definition custo_capacidade :: LpAffineExpression where
  "custo_capacidade =
     addInPlace
       (addInPlace (scale custo_emergencia (lpVar cap_emergencia))
                   (scale custo_cirurgia (lpVar cap_cirurgia)))
       (scale custo_consulta (lpVar cap_consulta))"

definition prob3 :: "row list \<Rightarrow> LpProblem" where
  "prob3 rs =
     add_constraint (lp_le custo_capacidade (lpConst 2000000))
       (add_constraint
          (lp_ge (lpVar cap_consulta) (lpConst (of_int (sum_list (map demanda_consulta rs)))))
          (add_constraint
             (lp_ge (lpVar cap_cirurgia) (lpConst (of_int (sum_list (map demanda_cirurgia rs)))))
             (add_constraint
                (lp_ge (lpVar cap_emergencia)
                       (lpConst (of_int (sum_list (map demanda_emergencia rs)))))
                (set_objective custo_capacidade
                   (new_problem ''CapacidadeHospitalar'' LpMinimize)))))"

text \<open>Two rows used as examples below.\<close>

definition linha_a :: row where
  "linha_a = \<lparr>age = 55, sex = ''male'', bmi = 36, children = 0, smoker = ''no'',
              region = ''southwest'', charges = Some 12000\<rparr>"

definition linha_b :: row where
  "linha_b = \<lparr>age = 23, sex = ''female'', bmi = 22, children = 1, smoker = ''no'',
              region = ''northeast'', charges = Some 3000\<rparr>"

text \<open>
  Tables with every required column but \<open>bmi\<close>: one with two rows, one with no row,
  and one with a row whose \<open>charges\<close> cell is empty.
\<close>

definition tabela_vazia :: table where
  "tabela_vazia =
     \<lparr>columns = [''age'', ''sex'', ''children'', ''smoker'', ''region'', ''charges''],
      records = []\<rparr>"

definition tabela_nan :: table where
  "tabela_nan =
     \<lparr>columns = [''age'', ''sex'', ''children'', ''smoker'', ''region'', ''charges''],
      records = [linha_a, linha_b\<lparr>charges := None\<rparr>]\<rparr>"


definition tabela_sem_bmi :: table where
  "tabela_sem_bmi =
     \<lparr>columns = [''age'', ''sex'', ''children'', ''smoker'', ''region'', ''charges''],
      records = [linha_a, linha_b]\<rparr>"

text \<open>The assignment that gives each capacity variable the given value.\<close>

definition capacidades :: "real \<Rightarrow> real \<Rightarrow> real \<Rightarrow> var \<Rightarrow> real" where
  "capacidades e s c v =
     (if v = V_cap_emergencia then e else if v = V_cap_cirurgia then s
      else if v = V_cap_consulta then c else 0)"

section \<open>Consulta 5: marketing budget\<close>

text \<open>Lines 194 to 218. The two dictionaries are maps; their keys are the channels.\<close>

definition canais :: "string list" where
  "canais = [''Digital'', ''TV'', ''Radio'', ''Impresso'']"

definition custo_por_lead :: "string \<rightharpoonup> real" where
  "custo_por_lead = map_of [(''Digital'', 50), (''TV'', 200), (''Radio'', 75), (''Impresso'', 100)]"

definition conversao_rate :: "string \<rightharpoonup> real" where
  "conversao_rate =
     map_of [(''Digital'', 15 / 100), (''TV'', 8 / 100), (''Radio'', 10 / 100), (''Impresso'', 5 / 100)]"

definition orcamento :: "string \<Rightarrow> LpVariable" where
  "orcamento c = \<lparr>vname = V_orcamento c, lowBound = Some 0, upBound = None, cat = Continuous\<rparr>"

definition total_orcamento :: LpAffineExpression where
  "total_orcamento = lpSum (map (\<lambda>c. lpVar (orcamento c)) canais)"

definition prob5 :: LpProblem where
  "prob5 =
     add_constraints (map (\<lambda>c. lp_le (lpVar (orcamento c)) (scale (4 / 10) total_orcamento)) canais)
       (add_constraints (map (\<lambda>c. lp_ge (lpVar (orcamento c)) (lpConst 20000)) canais)
          (add_constraint (lp_le (lpSum (map (\<lambda>c. lpVar (orcamento c)) canais)) (lpConst 500000))
             (set_objective
                (lpSum (map (\<lambda>c. scale (the (conversao_rate c))
                                    (divide_expr (lpVar (orcamento c)) (the (custo_por_lead c))))
                          canais))
                (new_problem ''AlocacaoMarketing'' LpMaximize))))"

definition orcamentos :: "real \<Rightarrow> real \<Rightarrow> real \<Rightarrow> real \<Rightarrow> var \<Rightarrow> real" where
  "orcamentos digital tv radio impresso v =
     (if v = V_orcamento ''Digital'' then digital else if v = V_orcamento ''TV'' then tv
      else if v = V_orcamento ''Radio'' then radio
      else if v = V_orcamento ''Impresso'' then impresso else 0)"

section \<open>Consulta 6: service network\<close>

text \<open>
  Lines 246 to 295. The coordinates come from the pseudo-random generator and are
  parameters here: five centres and fifty clients. A binary variable created without
  bounds has the bounds 0 and 1.
\<close>

definition n_centros :: nat where "n_centros = 5"
definition n_clientes_sample :: nat where "n_clientes_sample = 50"

definition distancia :: "real \<times> real \<Rightarrow> real \<times> real \<Rightarrow> real" where
  "distancia p1 p2 = sqrt ((fst p1 - fst p2)\<^sup>2 + (snd p1 - snd p2)\<^sup>2)"

definition distancias :: "(real \<times> real) list \<Rightarrow> (real \<times> real) list \<Rightarrow> nat \<times> nat \<Rightarrow> real" where
  "distancias centros clientes_coords ij = distancia (clientes_coords ! fst ij) (centros ! snd ij)"

definition z :: "nat \<Rightarrow> LpVariable" where
  "z j = \<lparr>vname = V_centro_aberto j, lowBound = Some 0, upBound = Some 1, cat = Binary\<rparr>"

definition w :: "nat \<times> nat \<Rightarrow> LpVariable" where
  "w ij = \<lparr>vname = V_atende (fst ij) (snd ij), lowBound = Some 0, upBound = Some 1, cat = Binary\<rparr>"

definition custo_fixo_centro :: real where "custo_fixo_centro = 10000"

definition pares :: "(nat \<times> nat) list" where
  "pares = concat (map (\<lambda>i. map (\<lambda>j. (i, j)) [0..<n_centros]) [0..<n_clientes_sample])"

definition prob6 :: "(real \<times> real) list \<Rightarrow> (real \<times> real) list \<Rightarrow> LpProblem" where
  "prob6 centros clientes_coords =
     add_constraint (lp_le (lpSum (map (\<lambda>j. lpVar (z j)) [0..<n_centros])) (lpConst 4))
       (add_constraint (lp_ge (lpSum (map (\<lambda>j. lpVar (z j)) [0..<n_centros])) (lpConst 2))
          (add_constraints (map (\<lambda>ij. lp_le (lpVar (w ij)) (lpVar (z (snd ij)))) pares)
             (add_constraints
                (map (\<lambda>i. lp_eq (lpSum (map (\<lambda>j. lpVar (w (i, j))) [0..<n_centros])) (lpConst 1))
                     [0..<n_clientes_sample])
                (set_objective
                   (addInPlace
                      (lpSum (map (\<lambda>ij. scale (distancias centros clientes_coords ij) (lpVar (w ij)))
                                pares))
                      (lpSum (map (\<lambda>j. scale custo_fixo_centro (lpVar (z j))) [0..<n_centros])))
                   (new_problem ''RedeAtendimento'' LpMinimize)))))"

text \<open>Example coordinates: every centre at the origin and every client at (3, 4).\<close>

definition centros_exemplo :: "(real \<times> real) list" where
  "centros_exemplo = replicate 5 (0, 0)"

definition clientes_exemplo :: "(real \<times> real) list" where
  "clientes_exemplo = replicate 50 (3, 4)"

text \<open>
  Two assignments used below: every client served by centre 0 with only centre 0 open,
  and every client served by centre 0 with centres 0 and 1 open.
\<close>

definition um_centro :: "var \<Rightarrow> real" where
  "um_centro v = (case v of V_centro_aberto j \<Rightarrow> (if j = 0 then 1 else 0)
                          | V_atende i j \<Rightarrow> (if j = 0 then 1 else 0)
                          | _ \<Rightarrow> 0)"

definition dois_centros :: "var \<Rightarrow> real" where
  "dois_centros v = (case v of V_centro_aberto j \<Rightarrow> (if j = 0 \<or> j = 1 then 1 else 0)
                             | V_atende i j \<Rightarrow> (if j = 0 then 1 else 0)
                             | _ \<Rightarrow> 0)"
section \<open>Properties of the expression algebra\<close>

lemma sum_addterm:
  "sum_list (map (\<lambda>(v, c). c * a (vname v)) (addterm ts u d)) =
   sum_list (map (\<lambda>(v, c). c * a (vname v)) ts) + d * a (vname u)"
  by (induction ts) (auto simp: algebra_simps)

lemma sum_addterms:
  "sum_list (map (\<lambda>(v, c). c * a (vname v)) (addterms ts us)) =
   sum_list (map (\<lambda>(v, c). c * a (vname v)) ts) + sum_list (map (\<lambda>(v, c). c * a (vname v)) us)"
  unfolding addterms_def
  by (induction us arbitrary: ts) (auto simp: sum_addterm)

lemma value_at_addInPlace: "value_at a (addInPlace e f) = value_at a e + value_at a f"
  by (simp add: value_at_def addInPlace_def sum_addterms)

lemma value_at_foldl_addInPlace:
  "value_at a (foldl addInPlace e es) = value_at a e + sum_list (map (value_at a) es)"
  by (induction es arbitrary: e) (auto simp: value_at_addInPlace)

lemma value_at_lpSum: "value_at a (lpSum es) = sum_list (map (value_at a) es)"
  unfolding lpSum_def value_at_foldl_addInPlace
  by (simp add: value_at_def lpEmpty_def)

lemma value_at_scale: "value_at a (scale k e) = k * value_at a e"
proof -
  have "sum_list (map (\<lambda>(v, c). c * a (vname v)) (map (\<lambda>(v, c). (v, k * c)) ts)) =
        k * sum_list (map (\<lambda>(v, c). c * a (vname v)) ts)" for ts
    by (induction ts) (auto simp: algebra_simps)
  then show ?thesis
    by (simp add: value_at_def scale_def algebra_simps)
qed

lemma value_at_lpVar: "value_at a (lpVar v) = a (vname v)"
  by (simp add: value_at_def lpVar_def)

lemma value_at_lpConst: "value_at a (lpConst c) = c"
  by (simp add: value_at_def lpConst_def)

lemma value_at_sub_expr: "value_at a (sub_expr e f) = value_at a e - value_at a f"
  by (simp add: sub_expr_def value_at_addInPlace value_at_scale)

lemma value_at_divide_expr: "value_at a (divide_expr e k) = value_at a e / k"
  by (simp add: divide_expr_def value_at_scale)

lemma holds_lp_le: "holds a (lp_le l r) \<longleftrightarrow> value_at a l \<le> value_at a r"
  by (simp add: holds_def lp_le_def value_at_sub_expr)

lemma holds_lp_ge: "holds a (lp_ge l r) \<longleftrightarrow> value_at a l \<ge> value_at a r"
  by (simp add: holds_def lp_ge_def value_at_sub_expr)

lemma holds_lp_eq: "holds a (lp_eq l r) \<longleftrightarrow> value_at a l = value_at a r"
  by (simp add: holds_def lp_eq_def value_at_sub_expr)


lemma keys_addterm: "fst ` set (addterm ts v c) = insert v (fst ` set ts)"
  by (induction ts v c rule: addterm.induct) (simp_all add: insert_commute)

lemma keys_addterms: "fst ` set (addterms ts us) = fst ` set ts \<union> fst ` set us"
  unfolding addterms_def
proof (induction us arbitrary: ts)
  case Nil
  show ?case by simp
next
  case (Cons u us)
  obtain v c where u: "u = (v, c)" by (cases u)
  show ?case
    using Cons.IH [of "addterm ts v c"] keys_addterm [of ts v c]
    by (simp add: u)
qed

lemma vars_of_addInPlace: "vars_of (addInPlace e f) = vars_of e \<union> vars_of f"
  by (simp add: vars_of_def addInPlace_def keys_addterms)

lemma vars_of_foldl: "vars_of (foldl addInPlace e es) = vars_of e \<union> (\<Union>f\<in>set es. vars_of f)"
  by (induction es arbitrary: e) (auto simp: vars_of_addInPlace)

lemma vars_of_lpSum: "vars_of (lpSum es) = (\<Union>f\<in>set es. vars_of f)"
  by (simp add: lpSum_def vars_of_foldl) (simp add: vars_of_def lpEmpty_def)

lemma vars_of_scale: "vars_of (scale k e) = vars_of e"
  by (simp add: vars_of_def scale_def image_image case_prod_unfold)

lemma vars_of_lpVar: "vars_of (lpVar v) = {v}"
  by (simp add: vars_of_def lpVar_def)

lemma vars_of_lpConst: "vars_of (lpConst c) = {}"
  by (simp add: vars_of_def lpConst_def)

lemma vars_of_sub_expr: "vars_of (sub_expr e f) = vars_of e \<union> vars_of f"
  by (simp add: sub_expr_def vars_of_addInPlace vars_of_scale)

lemma vars_of_divide_expr: "vars_of (divide_expr e k) = vars_of e"
  by (simp add: divide_expr_def vars_of_scale)

lemma set_variables:
  "set (variables p) = vars_of (objective p) \<union> (\<Union>c\<in>set (constraints p). vars_of (expr c))"
  by (auto simp: variables_def vars_of_def)

lemma feasible_iff:
  "feasible p a \<longleftrightarrow>
     (\<forall>v\<in>vars_of (objective p) \<union> (\<Union>c\<in>set (constraints p). vars_of (expr c)). in_domain a v) \<and>
     (\<forall>c\<in>set (constraints p). holds a c)"
  by (simp add: feasible_def list_all_iff set_variables)

lemma in_domain_x: "in_domain a (x i) \<longleftrightarrow> a (V_x i) = 0 \<or> a (V_x i) = 1"
  by (auto simp: in_domain_def x_def)

lemma constraints_prob:
  "constraints (prob receita custo) =
     [lp_le (lpSum (map (\<lambda>i. scale (custo ! i) (lpVar (x i))) [0..<length custo]))
            (scale 15000 (lpSum (map (\<lambda>i. lpVar (x i)) [0..<length custo])))]"
  by (simp add: prob_def Let_def add_constraint_def set_objective_def new_problem_def)

lemma objective_prob:
  "objective (prob receita custo) =
     lpSum (map (\<lambda>i. scale (receita ! i) (lpVar (x i))) [0..<length custo])"
  by (simp add: prob_def Let_def add_constraint_def set_objective_def new_problem_def)

lemma value_objective_prob:
  "value_at a (objective (prob receita custo)) =
     (\<Sum>i\<leftarrow>[0..<length custo]. receita ! i * a (V_x i))"
  by (simp add: objective_prob value_at_lpSum value_at_scale value_at_lpVar o_def x_def)

lemma vars_prob:
  "vars_of (objective (prob receita custo)) \<union>
     (\<Union>c\<in>set (constraints (prob receita custo)). vars_of (expr c)) = x ` {0..<length custo}"
  by (auto simp: constraints_prob objective_prob lp_le_def vars_of_lpSum vars_of_scale
      vars_of_lpVar vars_of_sub_expr)

lemma feasible_prob:
  "feasible (prob receita custo) a \<longleftrightarrow>
     (\<forall>i<length custo. a (V_x i) = 0 \<or> a (V_x i) = 1) \<and>
     (\<Sum>i\<leftarrow>[0..<length custo]. custo ! i * a (V_x i)) \<le>
       15000 * (\<Sum>i\<leftarrow>[0..<length custo]. a (V_x i))"
proof -
  have "holds a (hd (constraints (prob receita custo))) \<longleftrightarrow>
      (\<Sum>i\<leftarrow>[0..<length custo]. custo ! i * a (V_x i)) \<le>
       15000 * (\<Sum>i\<leftarrow>[0..<length custo]. a (V_x i))"
    by (simp add: constraints_prob holds_lp_le value_at_lpSum value_at_scale value_at_lpVar
        o_def x_def)
  moreover have "(\<forall>v\<in>x ` {0..<length custo}. in_domain a v) \<longleftrightarrow>
      (\<forall>i<length custo. a (V_x i) = 0 \<or> a (V_x i) = 1)"
    by (auto simp: in_domain_x)
  ultimately show ?thesis
    unfolding feasible_iff vars_prob by (simp add: constraints_prob)
qed

lemma upt3: "[0..<3] = [0, 1, 2]"
  by (simp add: upt_rec)

section \<open>Consulta 1: the problem and its three-record example\<close>

lemma all_less3: "(\<forall>i<3. P i) \<longleftrightarrow> P 0 \<and> P 1 \<and> P (2::nat)"
proof
  assume "\<forall>i<3. P i"
  then show "P 0 \<and> P 1 \<and> P 2" by simp
next
  assume h: "P 0 \<and> P 1 \<and> P 2"
  show "\<forall>i<3. P i"
  proof (intro allI impI)
    fix i :: nat
    assume "i < 3"
    then have "i = 0 \<or> i = 1 \<or> i = 2" by arith
    with h show "P i" by auto
  qed
qed

lemma dir_prob: "dir (prob receita custo) = LpMaximize"
  by (simp add: prob_def Let_def add_constraint_def set_objective_def new_problem_def)


lemma feasible_prob_example:
  "feasible (prob [5000, 5000, 5000] [10000, 16000, 20000]) a \<longleftrightarrow>
     (a (V_x 0) = 0 \<or> a (V_x 0) = 1) \<and> (a (V_x 1) = 0 \<or> a (V_x 1) = 1) \<and>
     (a (V_x 2) = 0 \<or> a (V_x 2) = 1) \<and>
     10000 * a (V_x 0) + 16000 * a (V_x 1) + 20000 * a (V_x 2) \<le>
       15000 * (a (V_x 0) + a (V_x 1) + a (V_x 2))"
proof -
  have len: "length [10000, 16000, 20000 :: real] = 3" by simp
  show ?thesis
    unfolding feasible_prob len upt3 all_less3 by simp
qed

lemma value_prob_example:
  "value_at a (objective (prob [5000, 5000, 5000] [10000, 16000, 20000])) =
     5000 * a (V_x 0) + 5000 * a (V_x 1) + 5000 * a (V_x 2)"
proof -
  have len: "length [10000, 16000, 20000 :: real] = 3" by simp
  show ?thesis
    unfolding value_objective_prob len upt3 by simp
qed

lemma optimal_prob_example:
  "optimal (prob [5000, 5000, 5000] [10000, 16000, 20000]) a \<longleftrightarrow>
     a (V_x 0) = 1 \<and>
     ((a (V_x 1) = 1 \<and> a (V_x 2) = 0) \<or> (a (V_x 1) = 0 \<and> a (V_x 2) = 1))"
  (is "optimal ?P a \<longleftrightarrow> ?R")
proof
  assume opt: "optimal ?P a"
  define b :: "var \<Rightarrow> real" where "b = (\<lambda>v. if v = V_x 0 \<or> v = V_x 1 then 1 else 0)"
  have fb: "feasible ?P b" by (simp add: feasible_prob_example b_def)
  have fa: "feasible ?P a" using opt by (simp add: optimal_def)
  have "no_worse ?P a b" using opt fb by (simp add: optimal_def)
  then have "value_at b (objective ?P) \<le> value_at a (objective ?P)"
    unfolding no_worse_def dir_prob by simp
  then have ge: "10000 \<le> 5000 * a (V_x 0) + 5000 * a (V_x 1) + 5000 * a (V_x 2)"
    by (simp add: value_prob_example b_def)
  from fa ge show ?R
    unfolding feasible_prob_example by auto
next
  assume r: ?R
  have fa: "feasible ?P a" using r by (auto simp: feasible_prob_example)
  have va: "value_at a (objective ?P) = 10000" using r by (auto simp: value_prob_example)
  have "no_worse ?P a c" if "feasible ?P c" for c
  proof -
    have "value_at c (objective ?P) \<le> 10000"
      using that unfolding feasible_prob_example value_prob_example by auto
    then show ?thesis
      unfolding no_worse_def dir_prob va by simp
  qed
  with fa show "optimal ?P a" by (simp add: optimal_def)
qed

text \<open>
  C1 (as amended). For the three records with costs 10000, 16000 and 20000 and revenue
  5000 each, the optimal objective value is 10000, and an assignment is optimal exactly
  when it selects the record costing 10000 and exactly one of the other two: the pair
  10000 and 20000 has mean cost 15000, which the constraint allows, so the selection of
  10000 and 16000 is optimal and so is the selection of 10000 and 20000.
\<close>

theorem c1_optimal_selections:
  "(optimal (prob [5000, 5000, 5000] [10000, 16000, 20000]) a \<longleftrightarrow>
      a (V_x 0) = 1 \<and>
      ((a (V_x 1) = 1 \<and> a (V_x 2) = 0) \<or> (a (V_x 1) = 0 \<and> a (V_x 2) = 1))) \<and>
   (optimal (prob [5000, 5000, 5000] [10000, 16000, 20000]) a \<longrightarrow>
      value_at a (objective (prob [5000, 5000, 5000] [10000, 16000, 20000])) = 10000) \<and>
   optimal (prob [5000, 5000, 5000] [10000, 16000, 20000]) sel_10000_16000 \<and>
   optimal (prob [5000, 5000, 5000] [10000, 16000, 20000]) sel_10000_20000"
proof -
  have v: "value_at a (objective (prob [5000, 5000, 5000] [10000, 16000, 20000])) = 10000"
    if "optimal (prob [5000, 5000, 5000] [10000, 16000, 20000]) a"
    using that unfolding optimal_prob_example value_prob_example by auto
  show ?thesis
    using v by (simp add: optimal_prob_example sel_10000_16000_def sel_10000_20000_def)
qed

theorem c1_optimal_selections_witness:
  "optimal (prob [5000, 5000, 5000] [10000, 16000, 20000]) sel_10000_16000 \<and>
   value_at sel_10000_16000 (objective (prob [5000, 5000, 5000] [10000, 16000, 20000])) = 10000 \<and>
   sel_10000_16000 (V_x 0) = 1 \<and> sel_10000_16000 (V_x 1) = 1 \<and> sel_10000_16000 (V_x 2) = 0"
  using c1_optimal_selections [of sel_10000_16000]
  by (simp add: sel_10000_16000_def)

text \<open>
  C1 as stated fails: the selection of the records costing 10000 and 20000 is optimal,
  and it leaves out the record costing 16000 and takes the one costing 20000.
\<close>

theorem c1_counterexample:
  "\<not> (optimal (prob [5000, 5000, 5000] [10000, 16000, 20000]) sel_10000_20000 \<longrightarrow>
        sel_10000_20000 (V_x 0) = 1 \<and> sel_10000_20000 (V_x 1) = 1 \<and>
        sel_10000_20000 (V_x 2) = 0)"
  by (simp add: optimal_prob_example sel_10000_20000_def)

section \<open>Problems built by \<open>+=\<close>\<close>

lemma constraints_add_constraint [simp]:
  "constraints (add_constraint c p) = constraints p @ [c]"
  by (simp add: add_constraint_def)

lemma objective_add_constraint [simp]: "objective (add_constraint c p) = objective p"
  by (simp add: add_constraint_def)

lemma dir_add_constraint [simp]: "dir (add_constraint c p) = dir p"
  by (simp add: add_constraint_def)

lemma constraints_add_constraints [simp]:
  "constraints (add_constraints cs p) = constraints p @ cs"
  unfolding add_constraints_def by (induction cs arbitrary: p) simp_all

lemma objective_add_constraints [simp]: "objective (add_constraints cs p) = objective p"
  unfolding add_constraints_def by (induction cs arbitrary: p) simp_all

lemma dir_add_constraints [simp]: "dir (add_constraints cs p) = dir p"
  unfolding add_constraints_def by (induction cs arbitrary: p) simp_all

lemma problem_set_objective [simp]:
  "constraints (set_objective e p) = constraints p"
  "objective (set_objective e p) = e"
  "dir (set_objective e p) = dir p"
  by (simp_all add: set_objective_def)

lemma problem_new [simp]:
  "constraints (new_problem nm d) = []"
  "objective (new_problem nm d) = lpEmpty"
  "dir (new_problem nm d) = d"
  by (simp_all add: new_problem_def)

section \<open>Consulta 2: the regional portfolio has no feasible assignment\<close>

lemma set_unique: "set (unique vs) = set vs"
  by (induction vs) auto

lemma distinct_unique: "distinct (unique vs)"
  by (induction vs) simp_all

lemma regiao_cases: "regiao b = ''Norte'' \<or> regiao b = ''Sul'' \<or> regiao b = ''Centro''"
  by (simp add: regiao_def)

lemma length_regioes: "length (unique (map regiao bmi_col)) \<le> 3"
proof -
  have "set (unique (map regiao bmi_col)) \<subseteq> {''Norte'', ''Sul'', ''Centro''}"
    using regiao_cases by (auto simp: set_unique)
  then have "card (set (unique (map regiao bmi_col))) \<le> card {''Norte'', ''Sul'', ''Centro''}"
    by (intro card_mono) simp_all
  also have "\<dots> \<le> 3" by (simp add: card_insert_if)
  finally show ?thesis by (simp add: distinct_card [OF distinct_unique])
qed

lemma sum_list_bounded: "(\<forall>r\<in>set rs. f r \<le> (c::real)) \<Longrightarrow> sum_list (map f rs) \<le> real (length rs) * c"
  by (induction rs) (auto simp: algebra_simps)

lemma value_total_clientes:
  "value_at a (total_clientes rs) = (\<Sum>r\<leftarrow>rs. a (V_clientes_regiao r))"
  by (simp add: total_clientes_def value_at_lpSum value_at_lpVar o_def y_def)

lemma ratio_total_le_0:
  assumes "\<forall>r\<in>set rs. holds a (lp_le (lpVar (y r)) (scale (3 / 10) (total_clientes rs)))"
    and "length rs \<le> 3"
  shows "value_at a (total_clientes rs) \<le> 0"
proof -
  let ?T = "value_at a (total_clientes rs)"
  have each: "\<forall>r\<in>set rs. a (V_clientes_regiao r) \<le> 3 / 10 * ?T"
    using assms(1) by (simp add: holds_lp_le value_at_scale value_at_lpVar y_def)
  have "?T \<le> real (length rs) * (3 / 10 * ?T)"
    unfolding value_total_clientes [of a rs]
    using sum_list_bounded [OF each [unfolded value_total_clientes]] .
  moreover have "real (length rs) \<le> 3" using assms(2) by simp
  ultimately show ?thesis
  proof (cases "?T \<le> 0")
    case True then show ?thesis .
  next
    case False
    then have pos: "0 < 3 / 10 * ?T" by simp
    have "real (length rs) * (3 / 10 * ?T) \<le> 3 * (3 / 10 * ?T)"
      using \<open>real (length rs) \<le> 3\<close> pos by (intro mult_right_mono) simp_all
    with \<open>?T \<le> real (length rs) * (3 / 10 * ?T)\<close> have "?T \<le> 9 / 10 * ?T" by simp
    with False show ?thesis by simp
  qed
qed

lemma constraints_prob2:
  "constraints (prob2 regiao_col custo) =
     lp_ge (lpSum (map (\<lambda>r. lpVar (y r)) (unique regiao_col))) (lpConst 50) #
     map (\<lambda>r. lp_le (lpVar (y r)) (scale (3 / 10) (total_clientes (unique regiao_col)))) (unique regiao_col) @
     map (\<lambda>r. lp_ge (lpVar (y r)) (lpConst 10)) (unique regiao_col)"
  by (simp add: prob2_def Let_def)

lemma prob2_infeasible: "\<not> feasible (prob2 (map regiao bmi_col) custo) a"
proof
  assume f: "feasible (prob2 (map regiao bmi_col) custo) a"
  let ?rs = "unique (map regiao bmi_col)"
  from f have c: "\<forall>c\<in>set (constraints (prob2 (map regiao bmi_col) custo)). holds a c"
    by (simp add: feasible_iff)
  have ge: "50 \<le> value_at a (total_clientes ?rs)"
    using c by (simp add: constraints_prob2 holds_lp_ge value_at_lpConst total_clientes_def)
  have "\<forall>r\<in>set ?rs. holds a (lp_le (lpVar (y r)) (scale (3 / 10) (total_clientes ?rs)))"
    using c by (simp add: constraints_prob2)
  from ratio_total_le_0 [OF this length_regioes] ge show False by simp
qed

text \<open>
  C2. The regional-portfolio problem is infeasible for every table: there are at most
  three regions (Norte, Sul, Centro), so the ratio constraints, each region at most 0.3
  times the total, force the total to be at most 0, while the first constraint asks for
  a total of at least 50. No assignment is feasible, and a result that meets the
  solver's contract has status \<open>Infeasible\<close>, never \<open>Optimal\<close>.
\<close>

theorem c2_portfolio_infeasible:
  "((\<forall>r\<in>set (unique (map regiao bmi_col)).
       holds a (lp_le (lpVar (y r)) (scale (3 / 10) (total_clientes (unique (map regiao bmi_col))))))
    \<longrightarrow> value_at a (total_clientes (unique (map regiao bmi_col))) \<le> 0) \<and>
   (\<forall>b. \<not> feasible (prob2 (map regiao bmi_col) custo) b) \<and>
   (solve_spec (prob2 (map regiao bmi_col) custo) res \<longrightarrow>
      status res = Infeasible \<and> status res \<noteq> Optimal)"
  using ratio_total_le_0 [OF _ length_regioes, of bmi_col a] prob2_infeasible [of bmi_col custo]
  by (auto simp: solve_spec_def)

theorem c2_portfolio_infeasible_witness:
  "list_all
     (\<lambda>r. holds tudo_zero
        (lp_le (lpVar (y r)) (scale (3 / 10) (total_clientes (unique (map regiao [22, 27, 31]))))))
     (unique (map regiao [22, 27, 31])) \<and>
   value_at tudo_zero (total_clientes (unique (map regiao [22, 27, 31]))) \<le> 0 \<and>
   \<not> feasible (prob2 (map regiao [22, 27, 31]) [1000, 2000, 3000]) tudo_zero \<and>
   solve_spec (prob2 (map regiao [22, 27, 31]) [1000, 2000, 3000]) res_infeasible \<and>
   status res_infeasible = Infeasible"
  using c2_portfolio_infeasible [of "[22, 27, 31]" tudo_zero "[1000, 2000, 3000]" res_infeasible]
  by (simp add: solve_spec_def res_infeasible_def holds_lp_le value_at_scale value_at_lpVar
      value_total_clientes tudo_zero_def y_def list_all_iff)

section \<open>Consulta 3: hospital capacity\<close>

lemma is_whole_of_int: "is_whole (of_int k)"
  by (simp add: is_whole_def)

lemma vars_custo_capacidade: "vars_of custo_capacidade = {cap_emergencia, cap_cirurgia, cap_consulta}"
  by (auto simp: custo_capacidade_def vars_of_addInPlace vars_of_scale vars_of_lpVar)

lemma value_custo_capacidade:
  "value_at a custo_capacidade =
     10000 * a V_cap_emergencia + 15000 * a V_cap_cirurgia + 2000 * a V_cap_consulta"
  by (simp add: custo_capacidade_def value_at_addInPlace value_at_scale value_at_lpVar
      cap_emergencia_def cap_cirurgia_def cap_consulta_def custo_emergencia_def
      custo_cirurgia_def custo_consulta_def)

lemma problem_prob3:
  "objective (prob3 rs) = custo_capacidade"
  "dir (prob3 rs) = LpMinimize"
  "constraints (prob3 rs) =
     [lp_ge (lpVar cap_emergencia) (lpConst (of_int (sum_list (map demanda_emergencia rs)))),
      lp_ge (lpVar cap_cirurgia) (lpConst (of_int (sum_list (map demanda_cirurgia rs)))),
      lp_ge (lpVar cap_consulta) (lpConst (of_int (sum_list (map demanda_consulta rs)))),
      lp_le custo_capacidade (lpConst 2000000)]"
  by (simp_all add: prob3_def)

lemma feasible_prob3:
  "feasible (prob3 rs) a \<longleftrightarrow>
     0 \<le> a V_cap_emergencia \<and> is_whole (a V_cap_emergencia) \<and>
     0 \<le> a V_cap_cirurgia \<and> is_whole (a V_cap_cirurgia) \<and>
     0 \<le> a V_cap_consulta \<and> is_whole (a V_cap_consulta) \<and>
     of_int (sum_list (map demanda_emergencia rs)) \<le> a V_cap_emergencia \<and>
     of_int (sum_list (map demanda_cirurgia rs)) \<le> a V_cap_cirurgia \<and>
     of_int (sum_list (map demanda_consulta rs)) \<le> a V_cap_consulta \<and>
     10000 * a V_cap_emergencia + 15000 * a V_cap_cirurgia + 2000 * a V_cap_consulta \<le> 2000000"
proof -
  have v: "vars_of (objective (prob3 rs)) \<union> (\<Union>c\<in>set (constraints (prob3 rs)). vars_of (expr c)) =
      {cap_emergencia, cap_cirurgia, cap_consulta}"
    by (auto simp: problem_prob3 vars_custo_capacidade lp_ge_def lp_le_def vars_of_sub_expr
        vars_of_lpVar vars_of_lpConst)
  have d: "in_domain a cap_emergencia \<longleftrightarrow> 0 \<le> a V_cap_emergencia \<and> is_whole (a V_cap_emergencia)"
    "in_domain a cap_cirurgia \<longleftrightarrow> 0 \<le> a V_cap_cirurgia \<and> is_whole (a V_cap_cirurgia)"
    "in_domain a cap_consulta \<longleftrightarrow> 0 \<le> a V_cap_consulta \<and> is_whole (a V_cap_consulta)"
    by (simp_all add: in_domain_def cap_emergencia_def cap_cirurgia_def cap_consulta_def)
  show ?thesis
    unfolding feasible_iff v
    by (simp add: d problem_prob3 holds_lp_ge holds_lp_le value_at_lpVar value_at_lpConst
        value_custo_capacidade)
      (auto simp: cap_emergencia_def cap_cirurgia_def cap_consulta_def)
qed

lemma demanda_nonneg:
  "0 \<le> sum_list (map demanda_emergencia rs)"
  "0 \<le> sum_list (map demanda_cirurgia rs)"
  "0 \<le> sum_list (map demanda_consulta rs)"
  by (induction rs) (simp_all add: demanda_emergencia_def demanda_cirurgia_def demanda_consulta_def)

lemma prob3_optimal_iff:
  fixes rs :: "row list"
  defines "E \<equiv> real_of_int (sum_list (map demanda_emergencia rs))"
    and "S \<equiv> real_of_int (sum_list (map demanda_cirurgia rs))"
    and "C \<equiv> real_of_int (sum_list (map demanda_consulta rs))"
  assumes budget: "10000 * E + 15000 * S + 2000 * C \<le> 2000000"
  shows "optimal (prob3 rs) a \<longleftrightarrow>
           a V_cap_emergencia = E \<and> a V_cap_cirurgia = S \<and> a V_cap_consulta = C"
proof -
  have nn: "0 \<le> E" "0 \<le> S" "0 \<le> C"
    using demanda_nonneg [of rs] by (simp_all add: E_def S_def C_def)
  have fb: "feasible (prob3 rs) (capacidades E S C)"
    using budget nn
    by (simp add: feasible_prob3 capacidades_def) (simp add: E_def S_def C_def is_whole_of_int)
  show ?thesis
  proof
    assume opt: "optimal (prob3 rs) a"
    then have fa: "feasible (prob3 rs) a" by (simp add: optimal_def)
    from opt fb have "no_worse (prob3 rs) a (capacidades E S C)" by (simp add: optimal_def)
    then have "10000 * a V_cap_emergencia + 15000 * a V_cap_cirurgia + 2000 * a V_cap_consulta
        \<le> 10000 * E + 15000 * S + 2000 * C"
      by (simp add: no_worse_def problem_prob3 value_custo_capacidade capacidades_def)
    moreover from fa have "E \<le> a V_cap_emergencia" "S \<le> a V_cap_cirurgia" "C \<le> a V_cap_consulta"
      by (simp_all add: feasible_prob3 E_def S_def C_def)
    ultimately show "a V_cap_emergencia = E \<and> a V_cap_cirurgia = S \<and> a V_cap_consulta = C"
      by simp
  next
    assume eq: "a V_cap_emergencia = E \<and> a V_cap_cirurgia = S \<and> a V_cap_consulta = C"
    have fa: "feasible (prob3 rs) a"
      using fb eq by (simp add: feasible_prob3 capacidades_def)
    have "no_worse (prob3 rs) a b" if "feasible (prob3 rs) b" for b
      using that eq
      by (simp add: no_worse_def problem_prob3 value_custo_capacidade feasible_prob3 E_def S_def C_def)
    with fa show "optimal (prob3 rs) a" by (simp add: optimal_def)
  qed
qed

lemma prob3_infeasible:
  assumes "\<not> 10000 * real_of_int (sum_list (map demanda_emergencia rs)) +
             15000 * real_of_int (sum_list (map demanda_cirurgia rs)) +
             2000 * real_of_int (sum_list (map demanda_consulta rs)) \<le> 2000000"
  shows "\<not> feasible (prob3 rs) a"
  using assms by (auto simp: feasible_prob3)

text \<open>
  C9. Let E, S and C be the totals over the table of the derived emergency, surgery and
  consultation demands. If 10000 E + 15000 S + 2000 C is at most 2000000, the capacity
  problem is feasible, an assignment is optimal exactly when it gives the three
  capacity variables the values E, S and C, and the optimal cost is
  10000 E + 15000 S + 2000 C. Otherwise no assignment is feasible.
\<close>

theorem c9_capacity:
  fixes rs :: "row list"
  defines "E \<equiv> real_of_int (sum_list (map demanda_emergencia rs))"
    and "S \<equiv> real_of_int (sum_list (map demanda_cirurgia rs))"
    and "C \<equiv> real_of_int (sum_list (map demanda_consulta rs))"
  shows "(10000 * E + 15000 * S + 2000 * C \<le> 2000000 \<longrightarrow>
            (\<forall>a. optimal (prob3 rs) a \<longleftrightarrow>
                   a V_cap_emergencia = E \<and> a V_cap_cirurgia = S \<and> a V_cap_consulta = C) \<and>
            optimal (prob3 rs) (capacidades E S C) \<and>
            value_at (capacidades E S C) (objective (prob3 rs)) =
              10000 * E + 15000 * S + 2000 * C) \<and>
         (\<not> 10000 * E + 15000 * S + 2000 * C \<le> 2000000 \<longrightarrow>
            (\<forall>a. \<not> feasible (prob3 rs) a))"
proof (intro conjI impI allI)
  fix a
  assume b: "10000 * E + 15000 * S + 2000 * C \<le> 2000000"
  show "optimal (prob3 rs) a \<longleftrightarrow>
          a V_cap_emergencia = E \<and> a V_cap_cirurgia = S \<and> a V_cap_consulta = C"
    using prob3_optimal_iff [of rs a] b by (simp add: E_def S_def C_def)
next
  assume b: "10000 * E + 15000 * S + 2000 * C \<le> 2000000"
  show "optimal (prob3 rs) (capacidades E S C)"
    using prob3_optimal_iff [of rs "capacidades E S C"] b
    by (simp add: E_def S_def C_def capacidades_def)
next
  show "value_at (capacidades E S C) (objective (prob3 rs)) = 10000 * E + 15000 * S + 2000 * C"
    by (simp add: problem_prob3 value_custo_capacidade capacidades_def)
next
  fix a
  assume "\<not> 10000 * E + 15000 * S + 2000 * C \<le> 2000000"
  then show "\<not> feasible (prob3 rs) a"
    using prob3_infeasible [of rs a] by (simp add: E_def S_def C_def)
qed

theorem c9_capacity_witness:
  "optimal (prob3 [linha_a, linha_b]) (capacidades 1 1 2) \<and>
   value_at (capacidades 1 1 2) (objective (prob3 [linha_a, linha_b])) = 29000 \<and>
   (\<forall>a. optimal (prob3 [linha_a, linha_b]) a \<longleftrightarrow>
      a V_cap_emergencia = 1 \<and> a V_cap_cirurgia = 1 \<and> a V_cap_consulta = 2) \<and>
   \<not> feasible (prob3 (replicate 1001 linha_b)) (capacidades 0 0 1001)"
  using c9_capacity [of "[linha_a, linha_b]"] c9_capacity [of "replicate 1001 linha_b"]
  by (simp add: demanda_emergencia_def demanda_cirurgia_def demanda_consulta_def
      linha_a_def linha_b_def sum_list_replicate capacidades_def)

section \<open>Consulta 5: marketing budget\<close>

lemma problem_prob5:
  "dir prob5 = LpMaximize"
  "objective prob5 =
     lpSum (map (\<lambda>c. scale (the (conversao_rate c))
                         (divide_expr (lpVar (orcamento c)) (the (custo_por_lead c)))) canais)"
  "constraints prob5 =
     lp_le (lpSum (map (\<lambda>c. lpVar (orcamento c)) canais)) (lpConst 500000) #
     map (\<lambda>c. lp_ge (lpVar (orcamento c)) (lpConst 20000)) canais @
     map (\<lambda>c. lp_le (lpVar (orcamento c)) (scale (4 / 10) total_orcamento)) canais"
  by (simp_all add: prob5_def)

lemma value_total_orcamento:
  "value_at a total_orcamento =
     a (V_orcamento ''Digital'') + a (V_orcamento ''TV'') + a (V_orcamento ''Radio'') +
     a (V_orcamento ''Impresso'')"
  by (simp add: total_orcamento_def canais_def value_at_lpSum value_at_lpVar orcamento_def)

lemma value_objective_prob5:
  "value_at a (objective prob5) =
     15 / 100 * (a (V_orcamento ''Digital'') / 50) + 8 / 100 * (a (V_orcamento ''TV'') / 200) +
     10 / 100 * (a (V_orcamento ''Radio'') / 75) + 5 / 100 * (a (V_orcamento ''Impresso'') / 100)"
  by (simp add: problem_prob5 canais_def value_at_lpSum value_at_scale value_at_divide_expr
      value_at_lpVar orcamento_def conversao_rate_def custo_por_lead_def)

lemma vars_prob5:
  "vars_of (objective prob5) \<union> (\<Union>c\<in>set (constraints prob5). vars_of (expr c)) = orcamento ` set canais"
  by (auto simp: problem_prob5 vars_of_lpSum vars_of_scale vars_of_divide_expr vars_of_lpVar
      vars_of_sub_expr vars_of_lpConst lp_le_def lp_ge_def total_orcamento_def)

lemma feasible_prob5:
  "feasible prob5 a \<longleftrightarrow>
     a (V_orcamento ''Digital'') + a (V_orcamento ''TV'') + a (V_orcamento ''Radio'') +
       a (V_orcamento ''Impresso'') \<le> 500000 \<and>
     20000 \<le> a (V_orcamento ''Digital'') \<and> 20000 \<le> a (V_orcamento ''TV'') \<and>
     20000 \<le> a (V_orcamento ''Radio'') \<and> 20000 \<le> a (V_orcamento ''Impresso'') \<and>
     a (V_orcamento ''Digital'') \<le> 4 / 10 * (a (V_orcamento ''Digital'') + a (V_orcamento ''TV'') +
        a (V_orcamento ''Radio'') + a (V_orcamento ''Impresso'')) \<and>
     a (V_orcamento ''TV'') \<le> 4 / 10 * (a (V_orcamento ''Digital'') + a (V_orcamento ''TV'') +
        a (V_orcamento ''Radio'') + a (V_orcamento ''Impresso'')) \<and>
     a (V_orcamento ''Radio'') \<le> 4 / 10 * (a (V_orcamento ''Digital'') + a (V_orcamento ''TV'') +
        a (V_orcamento ''Radio'') + a (V_orcamento ''Impresso'')) \<and>
     a (V_orcamento ''Impresso'') \<le> 4 / 10 * (a (V_orcamento ''Digital'') + a (V_orcamento ''TV'') +
        a (V_orcamento ''Radio'') + a (V_orcamento ''Impresso''))"
  (is "_ \<longleftrightarrow> ?R")
proof -
  have d: "in_domain a (orcamento c) \<longleftrightarrow> 0 \<le> a (V_orcamento c)" for c
    by (simp add: in_domain_def orcamento_def)
  have o: "vname (orcamento c) = V_orcamento c" for c
    by (simp add: orcamento_def)
  have dom: "(\<forall>v\<in>orcamento ` set canais. in_domain a v) \<longleftrightarrow>
      (0 \<le> a (V_orcamento ''Digital'') \<and> 0 \<le> a (V_orcamento ''TV'') \<and>
       0 \<le> a (V_orcamento ''Radio'') \<and> 0 \<le> a (V_orcamento ''Impresso''))"
    by (simp add: canais_def d)
  have cons: "(\<forall>c\<in>set (constraints prob5). holds a c) \<longleftrightarrow> ?R"
    by (simp add: problem_prob5(3) canais_def o holds_lp_le holds_lp_ge value_at_lpVar
        value_at_lpConst value_at_scale value_at_lpSum value_total_orcamento add.assoc)
  show ?thesis
    unfolding feasible_iff vars_prob5 dom cons by auto
qed

lemma prob5_bound:
  assumes "feasible prob5 b"
  shows "value_at b (objective prob5) \<le> 2744 / 3"
  using assms unfolding feasible_prob5 value_objective_prob5 by argo

lemma prob5_optimal_iff:
  "optimal prob5 a \<longleftrightarrow>
     a (V_orcamento ''Digital'') = 200000 \<and> a (V_orcamento ''Radio'') = 200000 \<and>
     a (V_orcamento ''Impresso'') = 80000 \<and> a (V_orcamento ''TV'') = 20000"
proof
  assume opt: "optimal prob5 a"
  have fo: "feasible prob5 (orcamentos 200000 20000 200000 80000)"
    by (simp add: feasible_prob5 orcamentos_def)
  from opt fo have "no_worse prob5 a (orcamentos 200000 20000 200000 80000)"
    by (simp add: optimal_def)
  then have ge: "2744 / 3 \<le> value_at a (objective prob5)"
    by (simp add: no_worse_def problem_prob5(1)) (simp add: value_objective_prob5 orcamentos_def)
  from opt have fa: "feasible prob5 a" by (simp add: optimal_def)
  from fa ge show "a (V_orcamento ''Digital'') = 200000 \<and> a (V_orcamento ''Radio'') = 200000 \<and>
     a (V_orcamento ''Impresso'') = 80000 \<and> a (V_orcamento ''TV'') = 20000"
    unfolding feasible_prob5 value_objective_prob5 by argo
next
  assume eq: "a (V_orcamento ''Digital'') = 200000 \<and> a (V_orcamento ''Radio'') = 200000 \<and>
     a (V_orcamento ''Impresso'') = 80000 \<and> a (V_orcamento ''TV'') = 20000"
  have fa: "feasible prob5 a" using eq by (simp add: feasible_prob5)
  have va: "value_at a (objective prob5) = 2744 / 3"
    using eq by (simp add: value_objective_prob5)
  have "no_worse prob5 a b" if "feasible prob5 b" for b
    using prob5_bound [OF that] by (simp add: no_worse_def problem_prob5(1) va)
  with fa show "optimal prob5 a" by (simp add: optimal_def)
qed

text \<open>
  C10. The marketing problem takes no data from the table. An assignment is optimal
  exactly when Digital = 200000, Radio = 200000, Impresso = 80000 and TV = 20000; the
  total budget is then 500000 and the objective value is 2744/3, with the exact
  rational coefficients \<open>conversao_rate c / custo_por_lead c\<close>.
\<close>

theorem c10_marketing:
  "(optimal prob5 a \<longleftrightarrow>
      a (V_orcamento ''Digital'') = 200000 \<and> a (V_orcamento ''Radio'') = 200000 \<and>
      a (V_orcamento ''Impresso'') = 80000 \<and> a (V_orcamento ''TV'') = 20000) \<and>
   (optimal prob5 a \<longrightarrow>
      value_at a (objective prob5) = 2744 / 3 \<and> value_at a total_orcamento = 500000) \<and>
   optimal prob5 (orcamentos 200000 20000 200000 80000)"
proof -
  have "value_at a (objective prob5) = 2744 / 3 \<and> value_at a total_orcamento = 500000"
    if "optimal prob5 a"
    using that unfolding prob5_optimal_iff
    by (simp add: value_objective_prob5 value_total_orcamento)
  moreover have "optimal prob5 (orcamentos 200000 20000 200000 80000)"
    by (simp add: prob5_optimal_iff orcamentos_def)
  ultimately show ?thesis
    by (simp add: prob5_optimal_iff)
qed

theorem c10_marketing_witness:
  "optimal prob5 (orcamentos 200000 20000 200000 80000) \<and>
   value_at (orcamentos 200000 20000 200000 80000) (objective prob5) = 2744 / 3 \<and>
   value_at (orcamentos 200000 20000 200000 80000) total_orcamento = 500000 \<and>
   \<not> optimal prob5 (orcamentos 200000 50000 200000 50000)"
  using c10_marketing [of "orcamentos 200000 20000 200000 80000"]
    c10_marketing [of "orcamentos 200000 50000 200000 50000"]
  by (simp add: orcamentos_def)

section \<open>The report of consulta 2\<close>

lemma terms_value_status: "terms_value (res\<lparr>status := s\<rparr>) ts acc = terms_value res ts acc"
  by (induction ts arbitrary: acc) (auto split: option.splits)

lemma print_regioes_status: "print_regioes (res\<lparr>status := s\<rparr>) rs = print_regioes res rs"
  by (induction rs) (auto split: option.splits)

lemma expr_value_status: "expr_value (res\<lparr>status := s\<rparr>) e = expr_value res e"
  by (simp add: expr_value_def terms_value_status)

lemma report2_status: "report2 rs p (res\<lparr>status := s\<rparr>) = report2 rs p res"
  by (simp add: report2_def print_regioes_status expr_value_status
      split: prod.splits option.splits)

lemma print_regioes_all:
  "list_all (\<lambda>r. varValue res (V_clientes_regiao r) \<noteq> None) rs \<Longrightarrow>
   print_regioes res rs =
     (map (\<lambda>r. ClientesRegiao r (py_int (the (varValue res (V_clientes_regiao r))))) rs, None)"
  by (induction rs) auto

lemma report2_all:
  assumes "list_all (\<lambda>r. varValue res (V_clientes_regiao r) \<noteq> None) rs"
    and "expr_value res (objective p) \<noteq> None"
  shows "report2 rs p res =
     (Titulo 2 # map (\<lambda>r. ClientesRegiao r (py_int (the (varValue res (V_clientes_regiao r))))) rs @
        [CustoTotalEstimado (the (expr_value res (objective p)))], None)"
  using assms(2) by (auto simp: report2_def print_regioes_all [OF assms(1)])

lemma regioes_exemplo: "unique (map regiao [22, 27, 31]) = [''Norte'', ''Sul'', ''Centro'']"
  by (simp add: regiao_def)

lemma objective_prob2_exemplo:
  "objective (prob2 (map regiao [22, 27, 31]) [1000, 2000, 3000]) =
     \<lparr>coeffs = [(y ''Norte'', 1000), (y ''Sul'', 2000), (y ''Centro'', 3000)], const_part = 0\<rparr>"
  by (simp add: prob2_def Let_def regioes_exemplo)
     (simp add: regiao_def custos_por_regiao_def mean_def lpSum_def lpEmpty_def addInPlace_def
        addterms_def scale_def lpVar_def y_def)

lemma report2_exemplo:
  "report2 (unique (map regiao [22, 27, 31])) (prob2 (map regiao [22, 27, 31]) [1000, 2000, 3000])
     res_lixo =
   ([Titulo 2, ClientesRegiao ''Norte'' 12, ClientesRegiao ''Sul'' 12, ClientesRegiao ''Centro'' 12,
     CustoTotalEstimado 72000], None)"
  unfolding objective_prob2_exemplo regioes_exemplo report2_def
  by (simp add: res_lixo_def expr_value_def py_int_def y_def)

text \<open>
  C3 (as amended). The report of the regional-portfolio scenario does not read the solve
  status: it is the same for every status, and whenever every region's variable and the
  objective have a value it prints the integer part of each region's value and then the
  objective value, whatever the status.
\<close>

theorem c3_report_ignores_status:
  "report2 rs p (res\<lparr>status := s\<rparr>) = report2 rs p res \<and>
   (list_all (\<lambda>r. varValue res (V_clientes_regiao r) \<noteq> None) rs \<and>
    expr_value res (objective p) \<noteq> None \<longrightarrow>
    report2 rs p res =
      (Titulo 2 # map (\<lambda>r. ClientesRegiao r (py_int (the (varValue res (V_clientes_regiao r))))) rs @
         [CustoTotalEstimado (the (expr_value res (objective p)))], None))"
  by (simp add: report2_status report2_all)

theorem c3_report_ignores_status_witness:
  "report2 [''Norte'', ''Sul'', ''Centro''] (prob2 (map regiao [22, 27, 31]) [1000, 2000, 3000])
     (res_lixo\<lparr>status := Optimal\<rparr>) =
   report2 [''Norte'', ''Sul'', ''Centro''] (prob2 (map regiao [22, 27, 31]) [1000, 2000, 3000])
     res_lixo \<and>
   list_all (\<lambda>r. varValue res_lixo (V_clientes_regiao r) \<noteq> None) [''Norte'', ''Sul'', ''Centro''] \<and>
   expr_value res_lixo (objective (prob2 (map regiao [22, 27, 31]) [1000, 2000, 3000])) \<noteq> None \<and>
   report2 [''Norte'', ''Sul'', ''Centro''] (prob2 (map regiao [22, 27, 31]) [1000, 2000, 3000])
     res_lixo =
   ([Titulo 2, ClientesRegiao ''Norte'' 12, ClientesRegiao ''Sul'' 12, ClientesRegiao ''Centro'' 12,
     CustoTotalEstimado 72000], None)"
  using c3_report_ignores_status [where rs = "[''Norte'', ''Sul'', ''Centro'']"
      and p = "prob2 (map regiao [22, 27, 31]) [1000, 2000, 3000]" and res = res_lixo
      and s = Optimal]
  unfolding objective_prob2_exemplo
  by (simp add: res_lixo_def expr_value_def py_int_def y_def)

text \<open>
  C3 as stated fails: for the table with one row in each region and a result whose
  status is \<open>Infeasible\<close>, the report prints a number for every region and for the
  objective; no line of the script announces that there is no solution.
\<close>

theorem c3_counterexample:
  "status res_lixo \<noteq> Optimal \<and>
   report2 (unique (map regiao [22, 27, 31]))
     (prob2 (map regiao [22, 27, 31]) [1000, 2000, 3000]) res_lixo =
   ([Titulo 2, ClientesRegiao ''Norte'' 12, ClientesRegiao ''Sul'' 12, ClientesRegiao ''Centro'' 12,
     CustoTotalEstimado 72000], None) \<and>
   list_ex prints_number
     (fst (report2 (unique (map regiao [22, 27, 31]))
        (prob2 (map regiao [22, 27, 31]) [1000, 2000, 3000]) res_lixo))"
  unfolding report2_exemplo
  by (simp add: res_lixo_def prints_number_def)

section \<open>Missing columns in the first two sections\<close>

lemma consulta1_sem_charges:
  "''charges'' \<notin> set (columns df) \<Longrightarrow> consulta1 solver df = ([], Inl (KeyError ''charges''))"
  by (simp add: consulta1_def getcol_def)

lemma list_ex_charges:
  "list_ex (\<lambda>c. c = None) (map charges rs) \<longleftrightarrow> list_ex (\<lambda>r. charges r = None) rs"
  by (induction rs) simp_all

lemma consulta1_nao_finito:
  "''charges'' \<in> set (columns df) \<Longrightarrow> list_ex (\<lambda>r. charges r = None) (records df) \<Longrightarrow>
   consulta1 solver df = ([], Inl PulpError)"
  by (simp add: consulta1_def getcol_def list_ex_charges)

lemma consulta1_finito:
  assumes "''charges'' \<in> set (columns df)" and "\<not> list_ex (\<lambda>r. charges r = None) (records df)"
    and "solve solver (prob (map (\<lambda>_. 5000) (records df)) (map (\<lambda>r. the (charges r)) (records df)))
           = (p, res)"
  shows "consulta1 solver df =
     (case report1 (map (\<lambda>r. the (charges r)) (records df)) p res of
        (out, Some e) \<Rightarrow> (out, Inl e)
      | (out, None) \<Rightarrow> (out @ [Separador], Inr (map (\<lambda>r. the (charges r)) (records df))))"
  using assms by (simp add: consulta1_def getcol_def list_ex_charges o_def Let_def)

lemma consulta2_sem_bmi:
  "''bmi'' \<notin> set (columns df) \<Longrightarrow> consulta2 solver df custo = ([], Inl (KeyError ''bmi''))"
  by (simp add: consulta2_def getcol_def)

lemma report1_cases:
  "report1 custo p res =
     (case expr_value res (objective p) of
        None \<Rightarrow>
          ([Titulo 1, ClientesEscolhidos (length (selecionados [0..<length custo] res))],
           Some TypeError)
      | Some v \<Rightarrow>
          ([Titulo 1, ClientesEscolhidos (length (selecionados [0..<length custo] res)),
            ReceitaTotal v] @
           (if selecionados [0..<length custo] res \<noteq> []
            then [CustoMedio (mean (map (\<lambda>i. custo ! i) (selecionados [0..<length custo] res)))]
            else []),
           None))"
  by (simp add: report1_def Let_def split: option.splits)

lemma consultas_sem_charges:
  "''charges'' \<notin> set (columns df) \<Longrightarrow> consultas_1_2 solver df = ([], Some (KeyError ''charges''))"
  by (simp add: consultas_1_2_def consulta1_sem_charges)

lemma consultas_nao_finito:
  "''charges'' \<in> set (columns df) \<Longrightarrow> list_ex (\<lambda>r. charges r = None) (records df) \<Longrightarrow>
   consultas_1_2 solver df = ([], Some PulpError)"
  by (simp add: consultas_1_2_def consulta1_nao_finito)

lemma consultas_sem_bmi:
  assumes "''charges'' \<in> set (columns df)" and "\<not> list_ex (\<lambda>r. charges r = None) (records df)"
    and "''bmi'' \<notin> set (columns df)"
    and "solve solver (prob (map (\<lambda>_. 5000) (records df)) (map (\<lambda>r. the (charges r)) (records df)))
           = (p, res)"
  shows "consultas_1_2 solver df =
     (case expr_value res (objective p) of
        None \<Rightarrow>
          ([Titulo 1, ClientesEscolhidos (length (selecionados [0..<length (records df)] res))],
           Some TypeError)
      | Some v \<Rightarrow>
          ([Titulo 1, ClientesEscolhidos (length (selecionados [0..<length (records df)] res)),
            ReceitaTotal v] @
           (if selecionados [0..<length (records df)] res \<noteq> []
            then [CustoMedio (mean (map (\<lambda>i. map (\<lambda>r. the (charges r)) (records df) ! i)
                                     (selecionados [0..<length (records df)] res)))]
            else []) @ [Separador],
           Some (KeyError ''bmi'')))"
  unfolding consultas_1_2_def consulta1_finito [OF assms(1,2,4)] consulta2_sem_bmi [OF assms(3)]
    report1_cases
  by (simp split: option.splits)

lemma consulta1_columns:
  "(''charges'' \<in> set cs \<longleftrightarrow> ''charges'' \<in> set (columns df)) \<Longrightarrow>
   consulta1 solver (df\<lparr>columns := cs\<rparr>) = consulta1 solver df"
  by (simp add: consulta1_def getcol_def)

lemma consulta2_columns:
  "(''bmi'' \<in> set cs \<longleftrightarrow> ''bmi'' \<in> set (columns df)) \<Longrightarrow>
   consulta2 solver (df\<lparr>columns := cs\<rparr>) custo = consulta2 solver df custo"
  by (simp add: consulta2_def getcol_def)

lemma consultas_columns:
  assumes "''charges'' \<in> set cs \<longleftrightarrow> ''charges'' \<in> set (columns df)"
    and "''bmi'' \<in> set cs \<longleftrightarrow> ''bmi'' \<in> set (columns df)"
  shows "consultas_1_2 solver (df\<lparr>columns := cs\<rparr>) = consultas_1_2 solver df"
  unfolding consultas_1_2_def consulta1_columns [OF assms(1)] consulta2_columns [OF assms(2)] ..

lemma objective_prob_exemplo:
  "objective (prob [5000, 5000] [12000, 3000]) = \<lparr>coeffs = [(x 0, 5000), (x 1, 5000)], const_part = 0\<rparr>"
  by (simp add: prob_def Let_def upt_rec lpSum_def lpEmpty_def addInPlace_def addterms_def
      scale_def lpVar_def x_def)

lemma solve_exemplo:
  "solve solver (prob [5000, 5000] [12000, 3000]) =
     (prob [5000, 5000] [12000, 3000], solver (prob [5000, 5000] [12000, 3000]))"
  by (simp add: solve_def objective_prob_exemplo)

lemma objective_solve_vazio:
  "objective (fst (solve solver (prob [] []))) = \<lparr>coeffs = [(dummyVar, 0)], const_part = 0\<rparr>"
  by (simp add: solve_def prob_def Let_def lpSum_def lpEmpty_def addInPlace_def addterms_def
      sub_expr_def scale_def lpVar_def add_constraint_def set_objective_def new_problem_def)

lemma consultas_exemplo:
  "consultas_1_2 solver_tudo tabela_sem_bmi =
     ([Titulo 1, ClientesEscolhidos 2, ReceitaTotal 10000, CustoMedio 7500, Separador],
      Some (KeyError ''bmi''))"
proof -
  have c: "''charges'' \<in> set (columns tabela_sem_bmi)"
    "\<not> list_ex (\<lambda>r. charges r = None) (records tabela_sem_bmi)"
    "''bmi'' \<notin> set (columns tabela_sem_bmi)"
    by (simp_all add: tabela_sem_bmi_def linha_a_def linha_b_def)
  have s: "solve solver_tudo (prob (map (\<lambda>_. 5000) (records tabela_sem_bmi))
        (map (\<lambda>r. the (charges r)) (records tabela_sem_bmi))) =
      (prob [5000, 5000] [12000, 3000], solver_tudo (prob [5000, 5000] [12000, 3000]))"
    by (simp add: tabela_sem_bmi_def linha_a_def linha_b_def solve_exemplo)
  show ?thesis
    unfolding consultas_sem_bmi [OF c s] objective_prob_exemplo
    by (simp add: solver_tudo_def selecionados_def upt_rec expr_value_def x_def mean_def
        tabela_sem_bmi_def linha_a_def linha_b_def)
qed

lemma consultas_exemplo_vazia:
  "consultas_1_2 solver_nada tabela_vazia = ([Titulo 1, ClientesEscolhidos 0], Some TypeError)"
proof -
  have c: "''charges'' \<in> set (columns tabela_vazia)"
    "\<not> list_ex (\<lambda>r. charges r = None) (records tabela_vazia)"
    "''bmi'' \<notin> set (columns tabela_vazia)"
    by (simp_all add: tabela_vazia_def)
  have s: "solve solver_nada (prob (map (\<lambda>_. 5000) (records tabela_vazia))
        (map (\<lambda>r. the (charges r)) (records tabela_vazia))) =
      (fst (solve solver_nada (prob [] [])), snd (solve solver_nada (prob [] [])))"
    by (simp add: tabela_vazia_def)
  have r: "snd (solve solver_nada (prob [] [])) = \<lparr>status = NotSolved, varValue = (\<lambda>_. None)\<rparr>"
    by (simp add: solve_def solver_nada_def Let_def)
  show ?thesis
    unfolding consultas_sem_bmi [OF c s] objective_solve_vazio r
    by (simp add: expr_value_def selecionados_def tabela_vazia_def dummyVar_def)
qed

lemma consultas_exemplo_nan: "consultas_1_2 solver tabela_nan = ([], Some PulpError)"
  by (rule consultas_nao_finito) (simp_all add: tabela_nan_def linha_a_def linha_b_def)

text \<open>
  C6 (as amended). The script does not check the table's columns; a column is missed
  only where it is first read, with \<open>KeyError\<close>.
  Without \<open>charges\<close> the run ends at line 19, before any problem is built and with
  nothing printed.
  With \<open>charges\<close> and a cell of it that is not a finite number, the run ends at line 31
  with \<open>PulpError\<close> and nothing printed.
  With \<open>charges\<close>, all its cells finite, and without \<open>bmi\<close>, the client-selection
  problem is built and solved and its report prints the title and the number of selected
  clients; then the run ends with \<open>TypeError\<close> at line 40 when the objective of the solved
  problem has no value, and otherwise the rest of the report and the separator are
  printed and the run ends with \<open>KeyError\<close> at line 52.
  Through the end of consulta 2 no other column is read: the outcome depends on the
  column names only through \<open>charges\<close> and \<open>bmi\<close>.
\<close>

theorem c6_missing_columns:
  "(''charges'' \<notin> set (columns df) \<longrightarrow>
      consultas_1_2 solver df = ([], Some (KeyError ''charges''))) \<and>
   (''charges'' \<in> set (columns df) \<and> list_ex (\<lambda>r. charges r = None) (records df) \<longrightarrow>
      consultas_1_2 solver df = ([], Some PulpError)) \<and>
   (''charges'' \<in> set (columns df) \<and> \<not> list_ex (\<lambda>r. charges r = None) (records df) \<and>
    ''bmi'' \<notin> set (columns df) \<and>
    solve solver (prob (map (\<lambda>_. 5000) (records df)) (map (\<lambda>r. the (charges r)) (records df)))
      = (p, res) \<longrightarrow>
      consultas_1_2 solver df =
        (case expr_value res (objective p) of
           None \<Rightarrow>
             ([Titulo 1, ClientesEscolhidos (length (selecionados [0..<length (records df)] res))],
              Some TypeError)
         | Some v \<Rightarrow>
             ([Titulo 1, ClientesEscolhidos (length (selecionados [0..<length (records df)] res)),
               ReceitaTotal v] @
              (if selecionados [0..<length (records df)] res \<noteq> []
               then [CustoMedio (mean (map (\<lambda>i. map (\<lambda>r. the (charges r)) (records df) ! i)
                                        (selecionados [0..<length (records df)] res)))]
               else []) @ [Separador],
              Some (KeyError ''bmi'')))) \<and>
   ((''charges'' \<in> set cs \<longleftrightarrow> ''charges'' \<in> set (columns df)) \<and>
    (''bmi'' \<in> set cs \<longleftrightarrow> ''bmi'' \<in> set (columns df)) \<longrightarrow>
      consultas_1_2 solver (df\<lparr>columns := cs\<rparr>) = consultas_1_2 solver df)"
  by (simp add: consultas_sem_charges consultas_nao_finito consultas_sem_bmi consultas_columns)

theorem c6_missing_columns_witness:
  "''charges'' \<notin> set (columns (tabela_sem_bmi\<lparr>columns := [''age'', ''bmi'']\<rparr>)) \<and>
   consultas_1_2 solver_tudo (tabela_sem_bmi\<lparr>columns := [''age'', ''bmi'']\<rparr>) =
     ([], Some (KeyError ''charges'')) \<and>
   ''charges'' \<in> set (columns tabela_nan) \<and>
   list_ex (\<lambda>r. charges r = None) (records tabela_nan) \<and>
   consultas_1_2 solver_tudo tabela_nan = ([], Some PulpError) \<and>
   ''charges'' \<in> set (columns tabela_vazia) \<and> ''bmi'' \<notin> set (columns tabela_vazia) \<and>
   \<not> list_ex (\<lambda>r. charges r = None) (records tabela_vazia) \<and>
   consultas_1_2 solver_nada tabela_vazia = ([Titulo 1, ClientesEscolhidos 0], Some TypeError) \<and>
   ''charges'' \<in> set (columns tabela_sem_bmi) \<and> ''bmi'' \<notin> set (columns tabela_sem_bmi) \<and>
   \<not> list_ex (\<lambda>r. charges r = None) (records tabela_sem_bmi) \<and>
   consultas_1_2 solver_tudo tabela_sem_bmi =
     ([Titulo 1, ClientesEscolhidos 2, ReceitaTotal 10000, CustoMedio 7500, Separador],
      Some (KeyError ''bmi'')) \<and>
   consultas_1_2 solver_tudo (tabela_sem_bmi\<lparr>columns := [''charges'']\<rparr>) =
     consultas_1_2 solver_tudo tabela_sem_bmi"
proof -
  have a: "''charges'' \<notin> set (columns (tabela_sem_bmi\<lparr>columns := [''age'', ''bmi'']\<rparr>))"
    by simp
  have b: "''charges'' \<in> set (columns tabela_nan)"
    "list_ex (\<lambda>r. charges r = None) (records tabela_nan)"
    by (simp_all add: tabela_nan_def linha_a_def linha_b_def)
  have c: "''charges'' \<in> set (columns tabela_vazia)" "''bmi'' \<notin> set (columns tabela_vazia)"
    "\<not> list_ex (\<lambda>r. charges r = None) (records tabela_vazia)"
    by (simp_all add: tabela_vazia_def)
  have d: "''charges'' \<in> set (columns tabela_sem_bmi)" "''bmi'' \<notin> set (columns tabela_sem_bmi)"
    "\<not> list_ex (\<lambda>r. charges r = None) (records tabela_sem_bmi)"
    by (simp_all add: tabela_sem_bmi_def linha_a_def linha_b_def)
  have e: "(''charges'' \<in> set [''charges''] \<longleftrightarrow> ''charges'' \<in> set (columns tabela_sem_bmi)) \<and>
      (''bmi'' \<in> set [''charges''] \<longleftrightarrow> ''bmi'' \<in> set (columns tabela_sem_bmi))"
    by (simp add: tabela_sem_bmi_def)
  have sc: "solve solver_nada (prob (map (\<lambda>_. 5000) (records tabela_vazia))
        (map (\<lambda>r. the (charges r)) (records tabela_vazia))) =
      (fst (solve solver_nada (prob [] [])), snd (solve solver_nada (prob [] [])))"
    by (simp add: tabela_vazia_def)
  have rc: "snd (solve solver_nada (prob [] [])) = \<lparr>status = NotSolved, varValue = (\<lambda>_. None)\<rparr>"
    by (simp add: solve_def solver_nada_def Let_def)
  have sd: "solve solver_tudo (prob (map (\<lambda>_. 5000) (records tabela_sem_bmi))
        (map (\<lambda>r. the (charges r)) (records tabela_sem_bmi))) =
      (prob [5000, 5000] [12000, 3000], solver_tudo (prob [5000, 5000] [12000, 3000]))"
    by (simp add: tabela_sem_bmi_def linha_a_def linha_b_def solve_exemplo)
  have 1: "consultas_1_2 solver_tudo (tabela_sem_bmi\<lparr>columns := [''age'', ''bmi'']\<rparr>) =
     ([], Some (KeyError ''charges''))"
    using a c6_missing_columns [where df = "tabela_sem_bmi\<lparr>columns := [''age'', ''bmi'']\<rparr>"
        and solver = solver_tudo]
    by blast
  have 2: "consultas_1_2 solver_tudo tabela_nan = ([], Some PulpError)"
    using b c6_missing_columns [where df = tabela_nan and solver = solver_tudo] by blast
  have 3: "consultas_1_2 solver_nada tabela_vazia = ([Titulo 1, ClientesEscolhidos 0], Some TypeError)"
  proof -
    have "consultas_1_2 solver_nada tabela_vazia =
        (case expr_value (snd (solve solver_nada (prob [] [])))
                (objective (fst (solve solver_nada (prob [] [])))) of
           None \<Rightarrow>
             ([Titulo 1, ClientesEscolhidos (length (selecionados [0..<length (records tabela_vazia)]
                 (snd (solve solver_nada (prob [] [])))))],
              Some TypeError)
         | Some v \<Rightarrow>
             ([Titulo 1, ClientesEscolhidos (length (selecionados [0..<length (records tabela_vazia)]
                 (snd (solve solver_nada (prob [] []))))),
               ReceitaTotal v] @
              (if selecionados [0..<length (records tabela_vazia)]
                    (snd (solve solver_nada (prob [] []))) \<noteq> []
               then [CustoMedio (mean (map (\<lambda>i. map (\<lambda>r. the (charges r)) (records tabela_vazia) ! i)
                      (selecionados [0..<length (records tabela_vazia)]
                         (snd (solve solver_nada (prob [] []))))))]
               else []) @ [Separador],
              Some (KeyError ''bmi'')))"
      using c sc c6_missing_columns [where df = tabela_vazia and solver = solver_nada
          and p = "fst (solve solver_nada (prob [] []))"
          and res = "snd (solve solver_nada (prob [] []))"]
      by blast
    then show ?thesis
      unfolding objective_solve_vazio rc
      by (simp add: expr_value_def selecionados_def tabela_vazia_def dummyVar_def)
  qed
  have 4: "consultas_1_2 solver_tudo tabela_sem_bmi =
     ([Titulo 1, ClientesEscolhidos 2, ReceitaTotal 10000, CustoMedio 7500, Separador],
      Some (KeyError ''bmi''))"
    by (rule consultas_exemplo)
  have 5: "consultas_1_2 solver_tudo (tabela_sem_bmi\<lparr>columns := [''charges'']\<rparr>) =
     consultas_1_2 solver_tudo tabela_sem_bmi"
    using e c6_missing_columns [where df = tabela_sem_bmi and solver = solver_tudo
        and cs = "[''charges'']"]
    by blast
  show ?thesis
    using a b c d 1 2 3 4 5 by blast
qed

text \<open>
  C6 as stated fails: for a table that has every required column but \<open>bmi\<close>, the run
  prints the whole report of consulta 1 before it ends, and it ends with \<open>KeyError\<close>.
\<close>

theorem c6_counterexample:
  "''bmi'' \<notin> set (columns tabela_sem_bmi) \<and>
   consultas_1_2 solver_tudo tabela_sem_bmi =
     ([Titulo 1, ClientesEscolhidos 2, ReceitaTotal 10000, CustoMedio 7500, Separador],
      Some (KeyError ''bmi''))"
  by (simp add: consultas_exemplo) (simp add: tabela_sem_bmi_def)

section \<open>Consulta 6: service network\<close>


lemma problem_prob6:
  "dir (prob6 cs ks) = LpMinimize"
  "objective (prob6 cs ks) =
     addInPlace
       (lpSum (map (\<lambda>ij. scale (distancias cs ks ij) (lpVar (w ij))) pares))
       (lpSum (map (\<lambda>j. scale custo_fixo_centro (lpVar (z j))) [0..<n_centros]))"
  "constraints (prob6 cs ks) =
     map (\<lambda>i. lp_eq (lpSum (map (\<lambda>j. lpVar (w (i, j))) [0..<n_centros])) (lpConst 1))
         [0..<n_clientes_sample] @
     map (\<lambda>ij. lp_le (lpVar (w ij)) (lpVar (z (snd ij)))) pares @
     [lp_ge (lpSum (map (\<lambda>j. lpVar (z j)) [0..<n_centros])) (lpConst 2),
      lp_le (lpSum (map (\<lambda>j. lpVar (z j)) [0..<n_centros])) (lpConst 4)]"
  by (simp_all add: prob6_def)

lemma set_pares: "set pares = {0..<n_clientes_sample} \<times> {0..<n_centros}"
  by (auto simp: pares_def)

lemma vname_z_w [simp]: "vname (z j) = V_centro_aberto j" "vname (w ij) = V_atende (fst ij) (snd ij)"
  by (simp_all add: z_def w_def)

lemma in_domain_z_w:
  "in_domain a (z j) \<longleftrightarrow> a (V_centro_aberto j) = 0 \<or> a (V_centro_aberto j) = 1"
  "in_domain a (w ij) \<longleftrightarrow> a (V_atende (fst ij) (snd ij)) = 0 \<or> a (V_atende (fst ij) (snd ij)) = 1"
  by (auto simp: in_domain_def z_def w_def)

lemma n_pos: "0 < n_centros" "0 < n_clientes_sample"
  by (simp_all add: n_centros_def n_clientes_sample_def)

lemma vars_prob6:
  "vars_of (objective (prob6 cs ks)) \<union> (\<Union>c\<in>set (constraints (prob6 cs ks)). vars_of (expr c)) =
     z ` {0..<n_centros} \<union> w ` ({0..<n_clientes_sample} \<times> {0..<n_centros})"
proof -
  have o: "vars_of (objective (prob6 cs ks)) =
      w ` ({0..<n_clientes_sample} \<times> {0..<n_centros}) \<union> z ` {0..<n_centros}"
    by (auto simp: problem_prob6 vars_of_addInPlace vars_of_lpSum vars_of_scale vars_of_lpVar set_pares)
  have c: "(\<Union>c\<in>set (constraints (prob6 cs ks)). vars_of (expr c)) \<subseteq>
      z ` {0..<n_centros} \<union> w ` ({0..<n_clientes_sample} \<times> {0..<n_centros})"
    by (auto simp: problem_prob6 lp_eq_def lp_le_def lp_ge_def vars_of_sub_expr vars_of_lpSum
        vars_of_lpVar vars_of_lpConst set_pares)
  show ?thesis using o c by blast
qed

lemma ball_upt_less: "(\<forall>j\<in>{0..<n::nat}. P j) \<longleftrightarrow> (\<forall>j<n. P j)"
  by auto

lemma holds_assign_prob6:
  "(\<forall>i\<in>set [0..<n_clientes_sample].
        holds a (lp_eq (lpSum (map (\<lambda>j. lpVar (w (i, j))) [0..<n_centros])) (lpConst 1))) \<longleftrightarrow>
      (\<forall>i<n_clientes_sample. (\<Sum>j\<leftarrow>[0..<n_centros]. a (V_atende i j)) = 1)"
  by (simp add: holds_lp_eq value_at_lpSum value_at_lpVar value_at_lpConst o_def ball_upt_less)

lemma holds_link_prob6:
  "(\<forall>ij\<in>set pares. holds a (lp_le (lpVar (w ij)) (lpVar (z (snd ij))))) \<longleftrightarrow>
      (\<forall>i<n_clientes_sample. \<forall>j<n_centros. a (V_atende i j) \<le> a (V_centro_aberto j))"
proof
  assume h: "\<forall>ij\<in>set pares. holds a (lp_le (lpVar (w ij)) (lpVar (z (snd ij))))"
  show "\<forall>i<n_clientes_sample. \<forall>j<n_centros. a (V_atende i j) \<le> a (V_centro_aberto j)"
  proof (intro allI impI)
    fix i j
    assume "i < n_clientes_sample" "j < n_centros"
    then have m: "(i, j) \<in> set pares" by (simp add: set_pares)
    from h m have "holds a (lp_le (lpVar (w (i, j))) (lpVar (z (snd (i, j)))))" by (rule bspec)
    then show "a (V_atende i j) \<le> a (V_centro_aberto j)"
      by (simp add: holds_lp_le value_at_lpVar)
  qed
next
  assume h: "\<forall>i<n_clientes_sample. \<forall>j<n_centros. a (V_atende i j) \<le> a (V_centro_aberto j)"
  show "\<forall>ij\<in>set pares. holds a (lp_le (lpVar (w ij)) (lpVar (z (snd ij))))"
  proof
    fix ij
    assume "ij \<in> set pares"
    then have "fst ij < n_clientes_sample" "snd ij < n_centros" by (auto simp: set_pares)
    then have "a (V_atende (fst ij) (snd ij)) \<le> a (V_centro_aberto (snd ij))" using h by simp
    then show "holds a (lp_le (lpVar (w ij)) (lpVar (z (snd ij))))"
      by (simp add: holds_lp_le value_at_lpVar)
  qed
qed

lemma holds_count_prob6:
  "holds a (lp_ge (lpSum (map (\<lambda>j. lpVar (z j)) [0..<n_centros])) (lpConst 2)) \<longleftrightarrow>
      2 \<le> (\<Sum>j\<leftarrow>[0..<n_centros]. a (V_centro_aberto j))"
  "holds a (lp_le (lpSum (map (\<lambda>j. lpVar (z j)) [0..<n_centros])) (lpConst 4)) \<longleftrightarrow>
      (\<Sum>j\<leftarrow>[0..<n_centros]. a (V_centro_aberto j)) \<le> 4"
  by (simp_all add: holds_lp_ge holds_lp_le value_at_lpSum value_at_lpVar value_at_lpConst o_def)

lemma ball_constraints_prob6:
  "(\<forall>c\<in>set (constraints (prob6 cs ks)). holds a c) \<longleftrightarrow>
      (\<forall>i\<in>set [0..<n_clientes_sample].
        holds a (lp_eq (lpSum (map (\<lambda>j. lpVar (w (i, j))) [0..<n_centros])) (lpConst 1))) \<and>
      (\<forall>ij\<in>set pares. holds a (lp_le (lpVar (w ij)) (lpVar (z (snd ij))))) \<and>
      holds a (lp_ge (lpSum (map (\<lambda>j. lpVar (z j)) [0..<n_centros])) (lpConst 2)) \<and>
      holds a (lp_le (lpSum (map (\<lambda>j. lpVar (z j)) [0..<n_centros])) (lpConst 4))"
proof -
  have "(\<forall>c\<in>set (map f is @ map g ps @ [c1, c2]). P c) \<longleftrightarrow>
      (\<forall>i\<in>set is. P (f i)) \<and> (\<forall>q\<in>set ps. P (g q)) \<and> P c1 \<and> P c2"
    for f :: "nat \<Rightarrow> LpConstraint" and g :: "nat \<times> nat \<Rightarrow> LpConstraint" and "is" ps c1 c2 P
    by (simp add: ball_Un conj_ac)
  then show ?thesis unfolding problem_prob6(3) .
qed

lemma holds_constraints_prob6:
  "(\<forall>c\<in>set (constraints (prob6 cs ks)). holds a c) \<longleftrightarrow>
     (\<forall>i<n_clientes_sample. (\<Sum>j\<leftarrow>[0..<n_centros]. a (V_atende i j)) = 1) \<and>
     (\<forall>i<n_clientes_sample. \<forall>j<n_centros. a (V_atende i j) \<le> a (V_centro_aberto j)) \<and>
     2 \<le> (\<Sum>j\<leftarrow>[0..<n_centros]. a (V_centro_aberto j)) \<and>
     (\<Sum>j\<leftarrow>[0..<n_centros]. a (V_centro_aberto j)) \<le> 4"
  unfolding ball_constraints_prob6 holds_assign_prob6 holds_link_prob6 holds_count_prob6 ..

lemma in_domain_prob6:
  "(\<forall>v\<in>z ` {0..<n_centros} \<union> w ` ({0..<n_clientes_sample} \<times> {0..<n_centros}). in_domain a v)
      \<longleftrightarrow> (\<forall>j<n_centros. a (V_centro_aberto j) = 0 \<or> a (V_centro_aberto j) = 1) \<and>
     (\<forall>i<n_clientes_sample. \<forall>j<n_centros. a (V_atende i j) = 0 \<or> a (V_atende i j) = 1)"
proof -
  have d1: "(\<forall>v\<in>z ` {0..<n_centros}. in_domain a v) \<longleftrightarrow>
      (\<forall>j<n_centros. a (V_centro_aberto j) = 0 \<or> a (V_centro_aberto j) = 1)"
    by (simp add: in_domain_z_w ball_upt_less)
  have d2: "(\<forall>v\<in>w ` ({0..<n_clientes_sample} \<times> {0..<n_centros}). in_domain a v) \<longleftrightarrow>
      (\<forall>i<n_clientes_sample. \<forall>j<n_centros. a (V_atende i j) = 0 \<or> a (V_atende i j) = 1)"
  proof
    assume h: "\<forall>v\<in>w ` ({0..<n_clientes_sample} \<times> {0..<n_centros}). in_domain a v"
    show "\<forall>i<n_clientes_sample. \<forall>j<n_centros. a (V_atende i j) = 0 \<or> a (V_atende i j) = 1"
    proof (intro allI impI)
      fix i j
      assume "i < n_clientes_sample" "j < n_centros"
      then have m: "w (i, j) \<in> w ` ({0..<n_clientes_sample} \<times> {0..<n_centros})" by simp
      from h m have "in_domain a (w (i, j))" by (rule bspec)
      then show "a (V_atende i j) = 0 \<or> a (V_atende i j) = 1" by (simp add: in_domain_z_w)
    qed
  next
    assume h: "\<forall>i<n_clientes_sample. \<forall>j<n_centros. a (V_atende i j) = 0 \<or> a (V_atende i j) = 1"
    show "\<forall>v\<in>w ` ({0..<n_clientes_sample} \<times> {0..<n_centros}). in_domain a v"
    proof
      fix v
      assume "v \<in> w ` ({0..<n_clientes_sample} \<times> {0..<n_centros})"
      then obtain ij where v: "v = w ij" and "fst ij < n_clientes_sample" "snd ij < n_centros"
        by auto
      then have "a (V_atende (fst ij) (snd ij)) = 0 \<or> a (V_atende (fst ij) (snd ij)) = 1"
        using h by simp
      then show "in_domain a v" by (simp add: v in_domain_z_w)
    qed
  qed
  show ?thesis unfolding ball_Un d1 d2 ..
qed

lemma feasible_prob6:
  "feasible (prob6 cs ks) a \<longleftrightarrow>
     (\<forall>j<n_centros. a (V_centro_aberto j) = 0 \<or> a (V_centro_aberto j) = 1) \<and>
     (\<forall>i<n_clientes_sample. \<forall>j<n_centros. a (V_atende i j) = 0 \<or> a (V_atende i j) = 1) \<and>
     (\<forall>i<n_clientes_sample. (\<Sum>j\<leftarrow>[0..<n_centros]. a (V_atende i j)) = 1) \<and>
     (\<forall>i<n_clientes_sample. \<forall>j<n_centros. a (V_atende i j) \<le> a (V_centro_aberto j)) \<and>
     2 \<le> (\<Sum>j\<leftarrow>[0..<n_centros]. a (V_centro_aberto j)) \<and>
     (\<Sum>j\<leftarrow>[0..<n_centros]. a (V_centro_aberto j)) \<le> 4"
  unfolding feasible_iff vars_prob6 in_domain_prob6 holds_constraints_prob6
  by (simp only: conj_assoc)

lemma binary_sum_card:
  assumes "distinct js" and "\<forall>j\<in>set js. f j = 0 \<or> f j = (1::real)"
  shows "sum_list (map f js) = real (card {j \<in> set js. f j = 1})"
  using assms
proof (induction js)
  case Nil
  show ?case by simp
next
  case (Cons j js)
  have fin: "finite {k \<in> set js. f k = 1}" by simp
  have notin: "j \<notin> {k \<in> set js. f k = 1}" using Cons.prems(1) by simp
  have ih: "sum_list (map f js) = real (card {k \<in> set js. f k = 1})"
    using Cons by simp
  show ?case
  proof (cases "f j = 1")
    case True
    then have "{k \<in> set (j # js). f k = 1} = insert j {k \<in> set js. f k = 1}" by auto
    then show ?thesis using True ih fin notin by simp
  next
    case False
    then have "f j = 0" using Cons.prems(2) by auto
    moreover have "{k \<in> set (j # js). f k = 1} = {k \<in> set js. f k = 1}" using False by auto
    ultimately show ?thesis using ih by simp
  qed
qed

lemma upt_set_less: "{j \<in> set [0..<n]. P j} = {j. j < n \<and> P j}"
  by auto


lemma binary_sum_one_unique:
  assumes "distinct js" and "\<forall>j\<in>set js. f j = 0 \<or> f j = (1::real)"
    and "sum_list (map f js) = 1"
  shows "\<exists>!j. j \<in> set js \<and> f j = 1"
proof -
  have "card {j \<in> set js. f j = 1} = 1"
    using binary_sum_card [OF assms(1,2)] assms(3) by simp
  then obtain k where k: "{j \<in> set js. f j = 1} = {k}"
    by (auto simp: card_1_singleton_iff)
  then have "k \<in> set js \<and> f k = 1" by auto
  moreover have "j = k" if "j \<in> set js \<and> f j = 1" for j
    using that k by auto
  ultimately show ?thesis by blast
qed

lemma distancia_nonneg: "0 \<le> distancia p q"
  by (simp add: distancia_def)

lemma value_objective_prob6:
  "value_at a (objective (prob6 cs ks)) =
     (\<Sum>ij\<leftarrow>pares. distancias cs ks ij * a (V_atende (fst ij) (snd ij))) +
     custo_fixo_centro * (\<Sum>j\<leftarrow>[0..<n_centros]. a (V_centro_aberto j))"
  by (simp add: problem_prob6 value_at_addInPlace value_at_lpSum value_at_scale value_at_lpVar
      o_def sum_list_const_mult)

lemma sum_list_nonneg_on: "(\<forall>v\<in>set vs. 0 \<le> f v) \<Longrightarrow> (0::real) \<le> sum_list (map f vs)"
  by (induction vs) auto

lemma feasible_prob6_properties:
  assumes f: "feasible (prob6 cs ks) a"
  shows "\<forall>i<n_clientes_sample.
           (\<Sum>j\<leftarrow>[0..<n_centros]. a (V_atende i j)) = 1 \<and>
           (\<exists>!j. j < n_centros \<and> a (V_atende i j) = 1)"
    and "\<forall>i<n_clientes_sample. \<forall>j<n_centros. a (V_atende i j) \<le> a (V_centro_aberto j)"
    and "\<forall>i<n_clientes_sample. \<forall>j<n_centros.
           a (V_atende i j) = 1 \<longrightarrow> a (V_centro_aberto j) = 1"
    and "2 \<le> card {j. j < n_centros \<and> a (V_centro_aberto j) = 1}"
    and "card {j. j < n_centros \<and> a (V_centro_aberto j) = 1} \<le> 4"
    and "2 * custo_fixo_centro \<le> value_at a (objective (prob6 cs ks))"
proof -
  from f have bz: "\<forall>j<n_centros. a (V_centro_aberto j) = 0 \<or> a (V_centro_aberto j) = 1"
    and bw: "\<forall>i<n_clientes_sample. \<forall>j<n_centros. a (V_atende i j) = 0 \<or> a (V_atende i j) = 1"
    and one: "\<forall>i<n_clientes_sample. (\<Sum>j\<leftarrow>[0..<n_centros]. a (V_atende i j)) = 1"
    and link: "\<forall>i<n_clientes_sample. \<forall>j<n_centros. a (V_atende i j) \<le> a (V_centro_aberto j)"
    and ge2: "2 \<le> (\<Sum>j\<leftarrow>[0..<n_centros]. a (V_centro_aberto j))"
    and le4: "(\<Sum>j\<leftarrow>[0..<n_centros]. a (V_centro_aberto j)) \<le> 4"
    unfolding feasible_prob6 by blast+
  show "\<forall>i<n_clientes_sample.
           (\<Sum>j\<leftarrow>[0..<n_centros]. a (V_atende i j)) = 1 \<and>
           (\<exists>!j. j < n_centros \<and> a (V_atende i j) = 1)"
  proof (intro allI impI conjI)
    fix i assume i: "i < n_clientes_sample"
    show s: "(\<Sum>j\<leftarrow>[0..<n_centros]. a (V_atende i j)) = 1" using one i by simp
    have "\<exists>!j. j \<in> set [0..<n_centros] \<and> a (V_atende i j) = 1"
      using bw i s by (intro binary_sum_one_unique) simp_all
    then show "\<exists>!j. j < n_centros \<and> a (V_atende i j) = 1" by simp
  qed
  show "\<forall>i<n_clientes_sample. \<forall>j<n_centros. a (V_atende i j) \<le> a (V_centro_aberto j)"
    by (rule link)
  show "\<forall>i<n_clientes_sample. \<forall>j<n_centros.
           a (V_atende i j) = 1 \<longrightarrow> a (V_centro_aberto j) = 1"
  proof (intro allI impI)
    fix i j assume "i < n_clientes_sample" "j < n_centros" "a (V_atende i j) = 1"
    then have "1 \<le> a (V_centro_aberto j)" using link by force
    with bz \<open>j < n_centros\<close> show "a (V_centro_aberto j) = 1" by force
  qed
  have c: "(\<Sum>j\<leftarrow>[0..<n_centros]. a (V_centro_aberto j)) =
      real (card {j. j < n_centros \<and> a (V_centro_aberto j) = 1})"
    using binary_sum_card [of "[0..<n_centros]" "\<lambda>j. a (V_centro_aberto j)"] bz
    by (simp add: upt_set_less)
  show "2 \<le> card {j. j < n_centros \<and> a (V_centro_aberto j) = 1}"
    using ge2 unfolding c by simp
  show "card {j. j < n_centros \<and> a (V_centro_aberto j) = 1} \<le> 4"
    using le4 unfolding c by simp
  have "0 \<le> (\<Sum>ij\<leftarrow>pares. distancias cs ks ij * a (V_atende (fst ij) (snd ij)))"
  proof (rule sum_list_nonneg_on, intro ballI)
    fix ij assume "ij \<in> set pares"
    then have "fst ij < n_clientes_sample" "snd ij < n_centros" by (auto simp: set_pares)
    then have "0 \<le> a (V_atende (fst ij) (snd ij))" using bw by force
    then show "0 \<le> distancias cs ks ij * a (V_atende (fst ij) (snd ij))"
      by (simp add: distancias_def distancia_nonneg)
  qed
  then show "2 * custo_fixo_centro \<le> value_at a (objective (prob6 cs ks))"
    using ge2 unfolding value_objective_prob6 by (simp add: custo_fixo_centro_def)
qed


lemma sum_upt_first: "0 < n \<Longrightarrow> (\<Sum>j\<leftarrow>[0..<n]. if j = 0 then 1 else (0::real)) = 1"
proof -
  assume "0 < n"
  then have u: "[0..<n] = 0 # [Suc 0..<n]" by (simp add: upt_conv_Cons)
  have "(\<Sum>j\<leftarrow>[Suc 0..<n]. if j = 0 then 1 else (0::real)) = (\<Sum>j\<leftarrow>[Suc 0..<n]. 0)"
    by (rule arg_cong [where f = sum_list], rule map_cong) auto
  then show ?thesis unfolding u by simp
qed

lemma sum_z_um_centro: "(\<Sum>j\<leftarrow>[0..<n_centros]. um_centro (V_centro_aberto j)) = 1"
  using sum_upt_first [OF n_pos(1)] by (simp add: um_centro_def)

lemma sum_w_um_centro: "(\<Sum>j\<leftarrow>[0..<n_centros]. um_centro (V_atende i j)) = 1"
  using sum_upt_first [OF n_pos(1)] by (simp add: um_centro_def)

lemma sum_w_dois_centros: "(\<Sum>j\<leftarrow>[0..<n_centros]. dois_centros (V_atende i j)) = 1"
  using sum_upt_first [OF n_pos(1)] by (simp add: dois_centros_def)

lemma sum_z_dois_centros: "(\<Sum>j\<leftarrow>[0..<n_centros]. dois_centros (V_centro_aberto j)) = 2"
  by (simp add: dois_centros_def n_centros_def upt_rec)

lemma feasible_dois_centros: "feasible (prob6 cs ks) dois_centros"
  unfolding feasible_prob6 sum_w_dois_centros sum_z_dois_centros
  by (simp add: dois_centros_def)

lemma um_centro_constraints:
  "\<forall>i<n_clientes_sample.
      holds um_centro (lp_eq (lpSum (map (\<lambda>j. lpVar (w (i, j))) [0..<n_centros])) (lpConst 1))"
  "\<forall>ij\<in>set pares. holds um_centro (lp_le (lpVar (w ij)) (lpVar (z (snd ij))))"
  "holds um_centro (lp_le (lpSum (map (\<lambda>j. lpVar (z j)) [0..<n_centros])) (lpConst 4))"
  "\<not> holds um_centro (lp_ge (lpSum (map (\<lambda>j. lpVar (z j)) [0..<n_centros])) (lpConst 2))"
  "card {j. j < n_centros \<and> um_centro (V_centro_aberto j) = 1} = 1"
proof -
  show "\<forall>i<n_clientes_sample.
      holds um_centro (lp_eq (lpSum (map (\<lambda>j. lpVar (w (i, j))) [0..<n_centros])) (lpConst 1))"
    by (simp add: holds_lp_eq value_at_lpSum value_at_lpVar value_at_lpConst o_def sum_w_um_centro)
  show "\<forall>ij\<in>set pares. holds um_centro (lp_le (lpVar (w ij)) (lpVar (z (snd ij))))"
    by (simp add: holds_lp_le value_at_lpVar um_centro_def)
  show "holds um_centro (lp_le (lpSum (map (\<lambda>j. lpVar (z j)) [0..<n_centros])) (lpConst 4))"
    by (simp add: holds_lp_le value_at_lpSum value_at_lpVar value_at_lpConst o_def sum_z_um_centro)
  show "\<not> holds um_centro (lp_ge (lpSum (map (\<lambda>j. lpVar (z j)) [0..<n_centros])) (lpConst 2))"
    by (simp add: holds_lp_ge value_at_lpSum value_at_lpVar value_at_lpConst o_def sum_z_um_centro)
  have "{j. j < n_centros \<and> um_centro (V_centro_aberto j) = 1} = {0}"
    using n_pos(1) by (auto simp: um_centro_def)
  then show "card {j. j < n_centros \<and> um_centro (V_centro_aberto j) = 1} = 1" by simp
qed

lemma um_centro_infeasible: "\<not> feasible (prob6 cs ks) um_centro"
  unfolding feasible_prob6 sum_z_um_centro by simp

lemma optimal_feasible: "optimal p a \<Longrightarrow> feasible p a"
  by (simp add: optimal_def)

lemma sqrt_25: "sqrt 25 = 5"
proof -
  have "sqrt 25 = sqrt (5\<^sup>2)" by simp
  also have "\<dots> = \<bar>5\<bar>" by (rule real_sqrt_abs)
  finally show ?thesis by simp
qed

lemma distancias_exemplo:
  assumes "ij \<in> set pares"
  shows "distancias centros_exemplo clientes_exemplo ij = 5"
proof -
  from assms have "fst ij < 50" "snd ij < 5"
    by (auto simp: set_pares n_centros_def n_clientes_sample_def)
  then show ?thesis
    by (simp add: distancias_def centros_exemplo_def clientes_exemplo_def distancia_def sqrt_25)
qed

lemma sum_list_concat_map:
  "sum_list (map f (concat vss)) = (\<Sum>vs\<leftarrow>vss. sum_list (map f vs) :: real)"
  by (induction vss) simp_all

lemma sum_pares:
  "(\<Sum>ij\<leftarrow>pares. f ij) =
     (\<Sum>i\<leftarrow>[0..<n_clientes_sample]. \<Sum>j\<leftarrow>[0..<n_centros]. f (i, j) :: real)"
  by (simp add: pares_def sum_list_concat_map o_def)

lemma distance_sum_exemplo:
  assumes "\<forall>i<n_clientes_sample. (\<Sum>j\<leftarrow>[0..<n_centros]. a (V_atende i j)) = 1"
  shows "(\<Sum>ij\<leftarrow>pares. distancias centros_exemplo clientes_exemplo ij *
            a (V_atende (fst ij) (snd ij))) = 250"
proof -
  have "(\<Sum>ij\<leftarrow>pares. distancias centros_exemplo clientes_exemplo ij *
            a (V_atende (fst ij) (snd ij))) =
        (\<Sum>ij\<leftarrow>pares. 5 * a (V_atende (fst ij) (snd ij)))"
    by (rule arg_cong [where f = sum_list], rule map_cong) (simp_all add: distancias_exemplo)
  also have "\<dots> = 5 * (\<Sum>ij\<leftarrow>pares. a (V_atende (fst ij) (snd ij)))"
    by (simp add: sum_list_const_mult)
  also have "(\<Sum>ij\<leftarrow>pares. a (V_atende (fst ij) (snd ij))) =
      (\<Sum>i\<leftarrow>[0..<n_clientes_sample]. \<Sum>j\<leftarrow>[0..<n_centros]. a (V_atende i j))"
    by (simp add: sum_pares)
  also have "\<dots> = (\<Sum>i\<leftarrow>[0..<n_clientes_sample]. 1)"
    by (rule arg_cong [where f = sum_list], rule map_cong) (simp_all add: assms)
  also have "\<dots> = 50" by (simp add: sum_list_triv n_clientes_sample_def)
  finally show ?thesis by simp
qed

lemma optimal_dois_centros_exemplo:
  "optimal (prob6 centros_exemplo clientes_exemplo) dois_centros"
proof -
  have v: "value_at dois_centros (objective (prob6 centros_exemplo clientes_exemplo)) = 20250"
    unfolding value_objective_prob6
    using distance_sum_exemplo [of dois_centros]
    by (simp add: sum_w_dois_centros sum_z_dois_centros custo_fixo_centro_def)
  have "no_worse (prob6 centros_exemplo clientes_exemplo) dois_centros b"
    if fb: "feasible (prob6 centros_exemplo clientes_exemplo) b" for b
  proof -
    from fb have one: "\<forall>i<n_clientes_sample. (\<Sum>j\<leftarrow>[0..<n_centros]. b (V_atende i j)) = 1"
      and ge2: "2 \<le> (\<Sum>j\<leftarrow>[0..<n_centros]. b (V_centro_aberto j))"
      unfolding feasible_prob6 by blast+
    have "20250 \<le> value_at b (objective (prob6 centros_exemplo clientes_exemplo))"
      unfolding value_objective_prob6 distance_sum_exemplo [OF one]
      using ge2 by (simp add: custo_fixo_centro_def)
    then show ?thesis by (simp add: no_worse_def problem_prob6(1) v)
  qed
  then show ?thesis by (simp add: optimal_def feasible_dois_centros)
qed


text \<open>
  C4. In every feasible assignment of the service-network problem each of the 50
  clients is served by exactly one of the 5 centres (the client's assignment variables
  sum to 1 and exactly one of them is 1), a client is served only by an open centre,
  and between 2 and 4 centres are open. Hence every optimal assignment opens at least
  2 centres and pays at least twice the positive fixed cost, although one open centre
  is enough for coverage: the assignment that opens centre 0 alone and serves every
  client from it meets every constraint except the one that asks for 2 open centres.
\<close>

theorem c4_service_network:
  "(feasible (prob6 cs ks) a \<longrightarrow>
      (\<forall>i<n_clientes_sample.
         (\<Sum>j\<leftarrow>[0..<n_centros]. a (V_atende i j)) = 1 \<and>
         (\<exists>!j. j < n_centros \<and> a (V_atende i j) = 1)) \<and>
      (\<forall>i<n_clientes_sample. \<forall>j<n_centros. a (V_atende i j) \<le> a (V_centro_aberto j)) \<and>
      (\<forall>i<n_clientes_sample. \<forall>j<n_centros.
         a (V_atende i j) = 1 \<longrightarrow> a (V_centro_aberto j) = 1) \<and>
      2 \<le> (\<Sum>j\<leftarrow>[0..<n_centros]. a (V_centro_aberto j)) \<and>
      (\<Sum>j\<leftarrow>[0..<n_centros]. a (V_centro_aberto j)) \<le> 4 \<and>
      2 \<le> card {j. j < n_centros \<and> a (V_centro_aberto j) = 1} \<and>
      card {j. j < n_centros \<and> a (V_centro_aberto j) = 1} \<le> 4) \<and>
   (optimal (prob6 cs ks) a \<longrightarrow>
      2 \<le> card {j. j < n_centros \<and> a (V_centro_aberto j) = 1} \<and>
      0 < custo_fixo_centro \<and>
      2 * custo_fixo_centro \<le> value_at a (objective (prob6 cs ks))) \<and>
   (\<forall>i<n_clientes_sample.
      holds um_centro (lp_eq (lpSum (map (\<lambda>j. lpVar (w (i, j))) [0..<n_centros])) (lpConst 1))) \<and>
   (\<forall>ij\<in>set pares. holds um_centro (lp_le (lpVar (w ij)) (lpVar (z (snd ij))))) \<and>
   holds um_centro (lp_le (lpSum (map (\<lambda>j. lpVar (z j)) [0..<n_centros])) (lpConst 4)) \<and>
   card {j. j < n_centros \<and> um_centro (V_centro_aberto j) = 1} = 1 \<and>
   \<not> holds um_centro (lp_ge (lpSum (map (\<lambda>j. lpVar (z j)) [0..<n_centros])) (lpConst 2)) \<and>
   \<not> feasible (prob6 cs ks) um_centro"
proof (intro conjI impI)
  assume f: "feasible (prob6 cs ks) a"
  show "\<forall>i<n_clientes_sample.
         (\<Sum>j\<leftarrow>[0..<n_centros]. a (V_atende i j)) = 1 \<and>
         (\<exists>!j. j < n_centros \<and> a (V_atende i j) = 1)"
    by (rule feasible_prob6_properties(1) [OF f])
  show "\<forall>i<n_clientes_sample. \<forall>j<n_centros. a (V_atende i j) \<le> a (V_centro_aberto j)"
    by (rule feasible_prob6_properties(2) [OF f])
  show "\<forall>i<n_clientes_sample. \<forall>j<n_centros.
         a (V_atende i j) = 1 \<longrightarrow> a (V_centro_aberto j) = 1"
    by (rule feasible_prob6_properties(3) [OF f])
  show "2 \<le> (\<Sum>j\<leftarrow>[0..<n_centros]. a (V_centro_aberto j))"
    using f by (simp add: feasible_prob6)
  show "(\<Sum>j\<leftarrow>[0..<n_centros]. a (V_centro_aberto j)) \<le> 4"
    using f by (simp add: feasible_prob6)
  show "2 \<le> card {j. j < n_centros \<and> a (V_centro_aberto j) = 1}"
    by (rule feasible_prob6_properties(4) [OF f])
  show "card {j. j < n_centros \<and> a (V_centro_aberto j) = 1} \<le> 4"
    by (rule feasible_prob6_properties(5) [OF f])
next
  assume "optimal (prob6 cs ks) a"
  then have f: "feasible (prob6 cs ks) a" by (rule optimal_feasible)
  show "2 \<le> card {j. j < n_centros \<and> a (V_centro_aberto j) = 1}"
    by (rule feasible_prob6_properties(4) [OF f])
  show "0 < custo_fixo_centro" by (simp add: custo_fixo_centro_def)
  show "2 * custo_fixo_centro \<le> value_at a (objective (prob6 cs ks))"
    by (rule feasible_prob6_properties(6) [OF f])
qed (rule um_centro_constraints um_centro_infeasible)+

theorem c4_service_network_witness:
  "feasible (prob6 centros_exemplo clientes_exemplo) dois_centros \<and>
   optimal (prob6 centros_exemplo clientes_exemplo) dois_centros \<and>
   (\<Sum>j\<leftarrow>[0..<n_centros]. dois_centros (V_atende 7 j)) = 1 \<and>
   dois_centros (V_atende 7 0) = 1 \<and> dois_centros (V_centro_aberto 0) = 1 \<and>
   2 \<le> card {j. j < n_centros \<and> dois_centros (V_centro_aberto j) = 1} \<and>
   card {j. j < n_centros \<and> dois_centros (V_centro_aberto j) = 1} \<le> 4 \<and>
   2 * custo_fixo_centro \<le>
     value_at dois_centros (objective (prob6 centros_exemplo clientes_exemplo)) \<and>
   holds um_centro (lp_eq (lpSum (map (\<lambda>j. lpVar (w (7, j))) [0..<n_centros])) (lpConst 1))"
proof -
  note t = c4_service_network [of centros_exemplo clientes_exemplo dois_centros]
  have f: "feasible (prob6 centros_exemplo clientes_exemplo) dois_centros"
    by (rule feasible_dois_centros)
  have o: "optimal (prob6 centros_exemplo clientes_exemplo) dois_centros"
    by (rule optimal_dois_centros_exemplo)
  have i: "(7::nat) < n_clientes_sample" "(0::nat) < n_centros"
    by (simp_all add: n_clientes_sample_def n_centros_def)
  have d: "dois_centros (V_atende 7 0) = 1" by (simp add: dois_centros_def)
  from t f i d have "dois_centros (V_centro_aberto 0) = 1" by blast
  moreover from t f i have "(\<Sum>j\<leftarrow>[0..<n_centros]. dois_centros (V_atende 7 j)) = 1" by blast
  moreover from t i have
    "holds um_centro (lp_eq (lpSum (map (\<lambda>j. lpVar (w (7, j))) [0..<n_centros])) (lpConst 1))"
    by blast
  ultimately show ?thesis using t f o d by blast
qed


section \<open>Sums of expressions\<close>

lemma map_of_addterm:
  "map_of (addterm ts u c) =
     (map_of ts)(u \<mapsto> (case map_of ts u of None \<Rightarrow> c | Some d \<Rightarrow> d + c))"
  by (induction ts u c rule: addterm.induct) (auto simp: fun_eq_iff)

lemma distinct_addterm:
  "distinct (map fst ts) \<Longrightarrow> distinct (map fst (addterm ts u c))"
proof (induction ts u c rule: addterm.induct)
  case (1 v c)
  show ?case by simp
next
  case (2 k d ts v c)
  have "fst ` set (addterm ts v c) = insert v (fst ` set ts)" by (rule keys_addterm)
  with 2 show ?case by auto
qed

lemma total_addterm: "total (addterm ts u c) k = total ts k + (if k = u then c else 0)"
  by (induction ts u c rule: addterm.induct) (auto simp: total_def)

lemma total_notin: "k \<notin> fst ` set ts \<Longrightarrow> total ts k = 0"
  by (induction ts) (auto simp: total_def)

lemma map_of_total:
  "distinct (map fst ts) \<Longrightarrow>
   map_of ts k = (if k \<in> fst ` set ts then Some (total ts k) else None)"
proof (induction ts)
  case Nil
  show ?case by simp
next
  case (Cons t ts)
  obtain v c where t: "t = (v, c)" by (cases t)
  from Cons.prems have d: "distinct (map fst ts)" and n: "v \<notin> fst ` set ts" by (simp_all add: t)
  show ?case
  proof (cases "k = v")
    case True
    then show ?thesis using total_notin [OF n] by (simp add: t total_def)
  next
    case False
    then show ?thesis using Cons.IH [OF d] by (simp add: t total_def)
  qed
qed

lemma total_simps:
  "total [] k = 0"
  "total ((v, c) # ts) k = (if v = k then c else 0) + total ts k"
  by (simp_all add: total_def)

lemma addterms_props:
  "distinct (map fst ts) \<Longrightarrow>
   distinct (map fst (addterms ts us)) \<and>
   (\<forall>k. total (addterms ts us) k = total ts k + total us k)"
proof (induction us arbitrary: ts)
  case Nil
  show ?case using Nil by (simp add: addterms_def total_simps)
next
  case (Cons t us)
  obtain v c where t: "t = (v, c)" by (cases t)
  have a: "addterms ts (t # us) = addterms (addterm ts v c) us"
    by (simp add: addterms_def t)
  have "distinct (map fst (addterm ts v c))" using Cons.prems by (rule distinct_addterm)
  from Cons.IH [OF this] show ?case
    unfolding a by (auto simp: total_addterm t total_simps)
qed

lemma foldl_addInPlace_props:
  "distinct (map fst (coeffs e)) \<Longrightarrow>
   distinct (map fst (coeffs (foldl addInPlace e es))) \<and>
   (\<forall>k. total (coeffs (foldl addInPlace e es)) k =
        total (coeffs e) k + sum_list (map (\<lambda>f. total (coeffs f) k) es)) \<and>
   const_part (foldl addInPlace e es) = const_part e + sum_list (map const_part es)"
proof (induction es arbitrary: e)
  case Nil
  then show ?case by simp
next
  case (Cons f es)
  have d: "distinct (map fst (coeffs (addInPlace e f)))"
    using addterms_props [OF Cons.prems, of "coeffs f"] by (simp add: addInPlace_def)
  have t: "total (coeffs (addInPlace e f)) k = total (coeffs e) k + total (coeffs f) k" for k
    using addterms_props [OF Cons.prems, of "coeffs f"] by (simp add: addInPlace_def)
  have c: "const_part (addInPlace e f) = const_part e + const_part f"
    by (simp add: addInPlace_def)
  from Cons.IH [OF d] show ?case by (simp add: t c add.assoc)
qed

lemma lpSum_props:
  "distinct (map fst (coeffs (lpSum es)))"
  "total (coeffs (lpSum es)) k = sum_list (map (\<lambda>f. total (coeffs f) k) es)"
  "const_part (lpSum es) = sum_list (map const_part es)"
  using foldl_addInPlace_props [of lpEmpty es]
  by (simp_all add: lpSum_def) (simp_all add: lpEmpty_def total_def)

lemma normalized_lpSum:
  "normalized (lpSum es) =
     ((\<lambda>k. if k \<in> (\<Union>f\<in>set es. vars_of f)
            then Some (sum_list (map (\<lambda>f. total (coeffs f) k) es)) else None),
      sum_list (map const_part es))"
proof -
  have "map_of (coeffs (lpSum es)) k =
      (if k \<in> (\<Union>f\<in>set es. vars_of f)
       then Some (sum_list (map (\<lambda>f. total (coeffs f) k) es)) else None)" for k
    using map_of_total [OF lpSum_props(1), where k = k and es1 = es] vars_of_lpSum [of es]
    by (simp add: lpSum_props(2) vars_of_def)
  then show ?thesis
    by (simp add: normalized_def lpSum_props(3) fun_eq_iff)
qed

text \<open>
  C7. For all expressions a, b and c, the sum of a and b and the sum of b and a have the
  same normalised mapping from variables to coefficients and the same constant, and so
  do the sum of (the sum of a and b) and c and the sum of a and (the sum of b and c).
  A sum has every variable at most once, and its value under any assignment is the
  mathematical sum of the values of the summands, whatever their order.
\<close>

theorem c7_sum_laws:
  "normalized (lpSum [a, b]) = normalized (lpSum [b, a]) \<and>
   normalized (lpSum [lpSum [a, b], c]) = normalized (lpSum [a, lpSum [b, c]]) \<and>
   distinct (map fst (coeffs (lpSum es))) \<and>
   value_at v (lpSum es) = sum_list (map (value_at v) es)"
proof (intro conjI)
  show "normalized (lpSum [a, b]) = normalized (lpSum [b, a])"
    by (simp add: normalized_lpSum fun_eq_iff Un_commute add.commute)
  show "normalized (lpSum [lpSum [a, b], c]) = normalized (lpSum [a, lpSum [b, c]])"
    by (simp add: normalized_lpSum fun_eq_iff vars_of_lpSum lpSum_props(2,3) Un_assoc add.assoc)
  show "distinct (map fst (coeffs (lpSum es)))"
    by (rule lpSum_props(1))
  show "value_at v (lpSum es) = sum_list (map (value_at v) es)"
    by (rule value_at_lpSum)
qed

theorem c7_sum_laws_witness:
  "normalized (lpSum [scale 2 (lpVar (x 0)), addInPlace (lpVar (x 1)) (lpConst 3)]) =
   normalized (lpSum [addInPlace (lpVar (x 1)) (lpConst 3), scale 2 (lpVar (x 0))]) \<and>
   coeffs (lpSum [scale 2 (lpVar (x 0)), addInPlace (lpVar (x 1)) (lpConst 3)]) \<noteq>
   coeffs (lpSum [addInPlace (lpVar (x 1)) (lpConst 3), scale 2 (lpVar (x 0))]) \<and>
   normalized (lpSum [lpSum [scale 2 (lpVar (x 0)), addInPlace (lpVar (x 1)) (lpConst 3)],
                      scale 5 (lpVar (x 0))]) =
   normalized (lpSum [scale 2 (lpVar (x 0)),
                      lpSum [addInPlace (lpVar (x 1)) (lpConst 3), scale 5 (lpVar (x 0))]]) \<and>
   value_at sel_10000_16000
     (lpSum [scale 2 (lpVar (x 0)), addInPlace (lpVar (x 1)) (lpConst 3), scale 5 (lpVar (x 0))]) = 11"
proof -
  have "coeffs (lpSum [scale 2 (lpVar (x 0)), addInPlace (lpVar (x 1)) (lpConst 3)]) \<noteq>
      coeffs (lpSum [addInPlace (lpVar (x 1)) (lpConst 3), scale 2 (lpVar (x 0))])"
    by (simp add: lpSum_def lpEmpty_def addInPlace_def addterms_def scale_def lpVar_def
        lpConst_def x_def)
  moreover have "value_at sel_10000_16000
     (lpSum [scale 2 (lpVar (x 0)), addInPlace (lpVar (x 1)) (lpConst 3), scale 5 (lpVar (x 0))]) = 11"
    using c7_sum_laws [where v = sel_10000_16000
        and es = "[scale 2 (lpVar (x 0)), addInPlace (lpVar (x 1)) (lpConst 3), scale 5 (lpVar (x 0))]"]
    by (simp add: value_at_scale value_at_lpVar value_at_addInPlace value_at_lpConst
        sel_10000_16000_def x_def)
  ultimately show ?thesis
    using c7_sum_laws [where a = "scale 2 (lpVar (x 0))"
        and b = "addInPlace (lpVar (x 1)) (lpConst 3)" and c = "scale 5 (lpVar (x 0))"]
    by blast
qed

section \<open>Binary variables and their bounds\<close>


lemma created_by_script:
  "x i = new_variable (V_x i) (Some 0) (Some 1) Binary"
  "z j = new_variable (V_centro_aberto j) None None Binary"
  "w ij = new_variable (V_atende (fst ij) (snd ij)) None None Binary"
  "y r = new_variable (V_clientes_regiao r) (Some 0) None Integer"
  "cap_emergencia = new_variable V_cap_emergencia (Some 0) None Integer"
  "cap_cirurgia = new_variable V_cap_cirurgia (Some 0) None Integer"
  "cap_consulta = new_variable V_cap_consulta (Some 0) None Integer"
  "orcamento c = new_variable (V_orcamento c) (Some 0) None Continuous"
  by (simp_all add: new_variable_def x_def z_def w_def y_def cap_emergencia_def cap_cirurgia_def
      cap_consulta_def orcamento_def)







end
